theory Spec2Isabelle
  imports Complex_Main "HOL-Library.Multiset" "HOL-Library.Log_Nat"
begin

section \<open>Numbers and interaction events\<close>

text \<open>
  A finite JavaScript \<^verbatim>\<open>number\<close> is modelled by its value, a rational. \<^verbatim>\<open>NaN\<close> and
  the infinities are outside this type: a computation that can produce them yields a
  \<open>number option\<close>, with \<open>None\<close> for a result that is not finite. The arithmetic of the
  compositor is rounded as IEEE 754 prescribes, by the functions below. Clock readings
  and timestamps are only subtracted and compared; these differences are kept exact.
\<close>

type_synonym number = rat

subsection \<open>Double-precision arithmetic\<close>

text \<open>
  The binary exponent of a positive rational: the \<open>e\<close> with \<open>2\<^sup>e \<le> y < 2\<^sup>e\<^sup>+\<^sup>1\<close>, found
  from the bit lengths of numerator and denominator.
\<close>

definition ilog2 :: "rat \<Rightarrow> int" where
  "ilog2 y =
     (case quotient_of y of
        (p, q) \<Rightarrow> let d = bitlen p - bitlen q in if 2 powi d \<le> y then d else d - 1)"

text \<open>The nearest integer, a tie going to the even one.\<close>

definition round_half_even :: "rat \<Rightarrow> int" where
  "round_half_even z =
     (let f = \<lfloor>z\<rfloor>; d = z - of_int f
      in if d < 1 / 2 then f
         else if 1 / 2 < d then f + 1
         else if even f then f else f + 1)"

text \<open>
  The IEEE 754 binary64 rounding of an exact result, to nearest and ties to even: 53
  significant bits, the exponent not below that of the subnormal numbers, and \<open>None\<close>
  (an infinity) when the rounded magnitude reaches \<open>2\<^sup>1\<^sup>0\<^sup>2\<^sup>4\<close>.
\<close>

definition fl :: "rat \<Rightarrow> number option" where
  "fl x =
     (if x = 0 then Some 0
      else
        let e = max (ilog2 \<bar>x\<bar>) (- 1022);
            q = 2 powi (e - 52);
            r = of_int (round_half_even (x / q)) * q
        in if 2 powi 1024 \<le> \<bar>r\<bar> then None else Some r)"

text \<open>
  The operators \<^verbatim>\<open>+\<close>, \<^verbatim>\<open>-\<close>, \<^verbatim>\<open>*\<close> and \<^verbatim>\<open>/\<close> on doubles: the exact result,
  rounded. An operand that is not finite gives a result that is not finite in the first
  three; the divisor of \<open>fdiv\<close> is finite, and a zero divisor gives an infinity or
  \<^verbatim>\<open>NaN\<close>.
\<close>

definition fadd :: "number option \<Rightarrow> number option \<Rightarrow> number option" where
  "fadd a b = (case a of None \<Rightarrow> None | Some x \<Rightarrow> (case b of None \<Rightarrow> None | Some y \<Rightarrow> fl (x + y)))"

definition fsub :: "number option \<Rightarrow> number option \<Rightarrow> number option" where
  "fsub a b = (case a of None \<Rightarrow> None | Some x \<Rightarrow> (case b of None \<Rightarrow> None | Some y \<Rightarrow> fl (x - y)))"

definition fmul :: "number option \<Rightarrow> number option \<Rightarrow> number option" where
  "fmul a b = (case a of None \<Rightarrow> None | Some x \<Rightarrow> (case b of None \<Rightarrow> None | Some y \<Rightarrow> fl (x * y)))"

definition fdiv :: "number option \<Rightarrow> number \<Rightarrow> number option" where
  "fdiv a y = (case a of None \<Rightarrow> None | Some x \<Rightarrow> if y = 0 then None else fl (x / y))"

subsection \<open>Interaction events\<close>

text \<open>\<^verbatim>\<open>Math.round(v)\<close>: the nearest integer, ties towards positive infinity.\<close>

definition Math_round :: "number \<Rightarrow> number" where
  "Math_round v = of_int \<lfloor>v + 1 / 2\<rfloor>"

text \<open>\<^verbatim>\<open>src/types/interaction.ts\<close>: the event kinds, touch points and events.\<close>

datatype InteractionEventType =
  Click | Mousedown | Mouseup | Mousemove | Touchstart | Touchmove | Touchend | Scroll

record TouchPoint =
  tp_x :: number
  tp_y :: number
  tp_identifier :: "number option"

record InteractionEvent =
  etype :: InteractionEventType
  timestamp :: number
  ev_x :: number
  ev_y :: number
  target :: "string option"
  scrollTop :: "number option"
  scrollLeft :: "number option"
  touches :: "TouchPoint list option"
  button :: "number option"

text \<open>The string value of an event kind, as the TypeScript union spells it.\<close>

fun type_name :: "InteractionEventType \<Rightarrow> string" where
  "type_name Click = ''click''"
| "type_name Mousedown = ''mousedown''"
| "type_name Mouseup = ''mouseup''"
| "type_name Mousemove = ''mousemove''"
| "type_name Touchstart = ''touchstart''"
| "type_name Touchmove = ''touchmove''"
| "type_name Touchend = ''touchend''"
| "type_name Scroll = ''scroll''"


section \<open>Event replayer (\<^verbatim>\<open>EventReplayer\<close>)\<close>

subsection \<open>The content document, as far as the replayer uses it\<close>

text \<open>
  DOM elements are node identities. A document answers the three queries that
  \<^verbatim>\<open>findTarget\<close> and \<^verbatim>\<open>dispatchScrollEvent\<close> make. \<^verbatim>\<open>querySelector\<close> yields
  \<open>None\<close> both for \<^verbatim>\<open>null\<close> and for a selector that throws: the source catches the
  exception and falls through to the same coordinate lookup.
\<close>

type_synonym element = nat

record document =
  querySelector :: "string \<Rightarrow> element option"
  elementFromPoint :: "number \<Rightarrow> number \<Rightarrow> element option"
  body :: element
  documentElement :: element

text \<open>An iframe: its \<^verbatim>\<open>contentDocument\<close> is \<^verbatim>\<open>null\<close> when it is cross-origin.\<close>

record iframe =
  contentDocument :: "document option"

text \<open>What a dispatch does to the document: synthetic events and scroll offsets.\<close>

datatype dom_effect =
  MouseEvent string element number number number number
| PointerEvent string element number number number number string
| TouchEvent string element "TouchPoint list" "TouchPoint list" "TouchPoint list"
| SetScrollTop element number
| SetScrollLeft element number
| PlainEvent string element

datatype replay_error = CannotAccessIframeDocument

text \<open>
  Everything the replayer does that is visible from outside, in the order in which it
  happens. A callbacks object passed to \<^verbatim>\<open>play\<close> is identified by a number (0 is the
  empty object of a fresh replayer); \<open>OnProgress c i n\<close>, \<open>OnComplete c\<close> and
  \<open>OnError c e\<close> are the calls of the members that the caller gave object \<open>c\<close>, each of
  which the caller may have left out. Every call of \<^verbatim>\<open>play\<close> returns a promise of its
  own, identified by a number; \<open>PromiseResolved p\<close> and \<open>PromiseRejected p e\<close> are the
  calls that resolve and reject promise \<open>p\<close> (a promise keeps its first outcome).
\<close>

datatype replay_effect =
  ConsoleWarn string
| ConsoleLog string
| ReadContentDocument
| Dom dom_effect
| OnProgress nat nat nat
| OnComplete nat
| OnError nat replay_error
| PromiseResolved nat
| PromiseRejected nat replay_error
| RequestAnimationFrame nat
| CancelAnimationFrame nat

text \<open>
  The fields of the class, followed by what the environment holds: the counter from
  which \<^verbatim>\<open>requestAnimationFrame\<close> draws its handles, the number of promises made, the
  trace of effects, and the callbacks objects. \<^verbatim>\<open>play\<close> stores the caller's object
  itself and overwrites its \<^verbatim>\<open>onComplete\<close> and \<^verbatim>\<open>onError\<close> with wrappers that call
  the member found there and then settle the promise of that call; \<open>wrappers s c\<close> lists
  the promises that the wrappers around object \<open>c\<close> settle, in the order in which a call
  settles them (the oldest first, after the caller's own member).
\<close>

record EventReplayer =
  events :: "InteractionEvent list"
  isPlaying :: bool
  startTime :: number
  currentIndex :: nat
  animationId :: "nat option"
  targetDocument :: "document option"
  callbacks :: nat
  frameCounter :: nat
  promiseCounter :: nat
  wrappers :: "nat \<Rightarrow> nat list"
  out :: "replay_effect list"

definition new_EventReplayer :: EventReplayer where
  "new_EventReplayer =
     \<lparr>events = [], isPlaying = False, startTime = 0, currentIndex = 0,
      animationId = None, targetDocument = None, callbacks = 0,
      frameCounter = 0, promiseCounter = 0, wrappers = (\<lambda>c. []), out = []\<rparr>"

text \<open>
  \<^verbatim>\<open>loadEvents\<close>: \<^verbatim>\<open>[...events].sort((a, b) => a.timestamp - b.timestamp)\<close>.
  \<^verbatim>\<open>Array.prototype.sort\<close> is a stable sort; with this comparator it orders by
  ascending timestamp, which is \<^const>\<open>sort_key\<close> on the timestamp.
\<close>

definition loadEvents :: "InteractionEvent list \<Rightarrow> EventReplayer \<Rightarrow> EventReplayer" where
  "loadEvents evs s = s\<lparr>events := sort_key timestamp evs, currentIndex := 0\<rparr>"


subsection \<open>Dispatching one event\<close>

text \<open>
  \<^verbatim>\<open>findTarget\<close>: the stored selector when it is non-empty and still finds an element,
  else the element at the recorded point, else the body.
\<close>

definition findTarget :: "document \<Rightarrow> InteractionEvent \<Rightarrow> element" where
  "findTarget d ev =
     (case (case target ev of
              None \<Rightarrow> None
            | Some sel \<Rightarrow> if sel = [] then None else querySelector d sel) of
        Some el \<Rightarrow> el
      | None \<Rightarrow>
          (case elementFromPoint d (ev_x ev) (ev_y ev) of
             Some el \<Rightarrow> el
           | None \<Rightarrow> body d))"

text \<open>
  \<^verbatim>\<open>event.type.replace("mouse", "pointer")\<close>: \<^verbatim>\<open>"click"\<close> has no \<^verbatim>\<open>"mouse"\<close> in
  it and stays as it is.
\<close>

fun pointer_name :: "InteractionEventType \<Rightarrow> string" where
  "pointer_name Mousedown = ''pointerdown''"
| "pointer_name Mouseup = ''pointerup''"
| "pointer_name Mousemove = ''pointermove''"
| "pointer_name t = type_name t"

definition dispatchMouseEvent :: "InteractionEvent \<Rightarrow> element \<Rightarrow> dom_effect list" where
  "dispatchMouseEvent ev tgt =
     (let b = (case button ev of None \<Rightarrow> 0 | Some v \<Rightarrow> v);
          bs = (if etype ev = Mousedown then 1 else 0)
      in [MouseEvent (type_name (etype ev)) tgt (ev_x ev) (ev_y ev) b bs,
          PointerEvent (pointer_name (etype ev)) tgt (ev_x ev) (ev_y ev) b bs ''mouse''])"

text \<open>
  \<^verbatim>\<open>dispatchTouchEvent\<close>: a \<^verbatim>\<open>Touch\<close> per recorded touch point (the event's own
  coordinates when the list is undefined), its identifier defaulting to its index.
\<close>

definition dispatchTouchEvent :: "InteractionEvent \<Rightarrow> element \<Rightarrow> dom_effect list" where
  "dispatchTouchEvent ev tgt =
     (let ts = (case touches ev of
                  None \<Rightarrow> [\<lparr>tp_x = ev_x ev, tp_y = ev_y ev, tp_identifier = None\<rparr>]
                | Some l \<Rightarrow> l);
          touchList = map (\<lambda>(index, touch).
                         touch\<lparr>tp_identifier :=
                           Some (case tp_identifier touch of
                                   None \<Rightarrow> of_nat index | Some i \<Rightarrow> i)\<rparr>)
                        (enumerate 0 ts);
          activeTouches = (if etype ev = Touchstart \<or> etype ev = Touchmove
                           then touchList else []);
          pointerType = (if etype ev = Touchstart then ''pointerdown''
                         else if etype ev = Touchend then ''pointerup''
                         else ''pointermove'')
      in [TouchEvent (type_name (etype ev)) tgt activeTouches activeTouches touchList,
          PointerEvent pointerType tgt (ev_x ev) (ev_y ev) 0 0 ''touch''])"

text \<open>
  \<^verbatim>\<open>dispatchScrollEvent\<close>: the offsets are written directly (to the document element
  when the target is the body or the document element), then a scroll event is sent.
\<close>

definition dispatchScrollEvent ::
  "document \<Rightarrow> InteractionEvent \<Rightarrow> element \<Rightarrow> dom_effect list" where
  "dispatchScrollEvent d ev tgt =
     (let el = (if tgt = body d \<or> tgt = documentElement d then documentElement d else tgt)
      in (case scrollTop ev of None \<Rightarrow> [] | Some v \<Rightarrow> [SetScrollTop el v])
         @ (case scrollLeft ev of None \<Rightarrow> [] | Some v \<Rightarrow> [SetScrollLeft el v])
         @ [PlainEvent ''scroll'' tgt])"

text \<open>
  \<^verbatim>\<open>dispatchEvent\<close>: nothing without a target document. The source wraps the body in
  \<^verbatim>\<open>try/catch\<close> and only warns, so the call returns normally in every case.
\<close>

definition dispatchEvent :: "document option \<Rightarrow> InteractionEvent \<Rightarrow> dom_effect list" where
  "dispatchEvent doc ev =
     (case doc of
        None \<Rightarrow> []
      | Some d \<Rightarrow>
          (let tgt = findTarget d ev
           in case etype ev of
                Click \<Rightarrow> dispatchMouseEvent ev tgt
              | Mousedown \<Rightarrow> dispatchMouseEvent ev tgt
              | Mouseup \<Rightarrow> dispatchMouseEvent ev tgt
              | Mousemove \<Rightarrow> dispatchMouseEvent ev tgt
              | Touchstart \<Rightarrow> dispatchTouchEvent ev tgt
              | Touchmove \<Rightarrow> dispatchTouchEvent ev tgt
              | Touchend \<Rightarrow> dispatchTouchEvent ev tgt
              | Scroll \<Rightarrow> dispatchScrollEvent d ev tgt))"

subsection \<open>The scheduling loop\<close>

text \<open>
  One pass of the body of the \<^verbatim>\<open>while\<close> loop of \<^verbatim>\<open>replayLoop\<close>: dispatch the
  event under the cursor, advance the cursor, report progress.
\<close>

definition emitted :: "EventReplayer \<Rightarrow> nat \<Rightarrow> replay_effect list" where
  "emitted s k =
     map Dom (dispatchEvent (targetDocument s) (events s ! k))
     @ [OnProgress (callbacks s) (k + 1) (length (events s))]"

definition dispatchStep :: "EventReplayer \<Rightarrow> EventReplayer" where
  "dispatchStep s =
     s\<lparr>currentIndex := currentIndex s + 1, out := out s @ emitted s (currentIndex s)\<rparr>"

text \<open>The \<^verbatim>\<open>while\<close> loop itself; it ends because the cursor approaches the length.\<close>

function dispatchDue :: "number \<Rightarrow> EventReplayer \<Rightarrow> EventReplayer" where
  "dispatchDue elapsed s =
     (if currentIndex s < length (events s)
         \<and> timestamp (events s ! currentIndex s) \<le> elapsed
      then dispatchDue elapsed (dispatchStep s)
      else s)"
  by pat_completeness auto
termination
  by (relation "measure (\<lambda>(elapsed, s). length (events s) - currentIndex s)")
     (auto simp: dispatchStep_def)

declare dispatchDue.simps [simp del]

text \<open>
  \<^verbatim>\<open>replayLoop\<close>, one tick at time \<open>now\<close> (the value of \<^verbatim>\<open>performance.now()\<close>).
  \<^verbatim>\<open>this.callbacks.onComplete\<close> is the outermost wrapper: the caller's own member is
  called, then the promises of the wrappers are resolved.
\<close>

definition callOnComplete :: "EventReplayer \<Rightarrow> nat \<Rightarrow> replay_effect list" where
  "callOnComplete s c = OnComplete c # map PromiseResolved (wrappers s c)"

definition callOnError :: "EventReplayer \<Rightarrow> nat \<Rightarrow> replay_error \<Rightarrow> replay_effect list" where
  "callOnError s c e = OnError c e # map (\<lambda>p. PromiseRejected p e) (wrappers s c)"

definition replayLoop :: "number \<Rightarrow> EventReplayer \<Rightarrow> EventReplayer" where
  "replayLoop now s =
     (if \<not> isPlaying s \<or> targetDocument s = None then s
      else
        let s1 = dispatchDue (now - startTime s) s
        in if currentIndex s1 \<ge> length (events s1)
           then s1\<lparr>isPlaying := False,
                   out := out s1 @ [ConsoleLog ''[EventReplayer] Replay complete'']
                                 @ callOnComplete s1 (callbacks s1)\<rparr>
           else s1\<lparr>animationId := Some (frameCounter s1 + 1),
                   frameCounter := frameCounter s1 + 1,
                   out := out s1 @ [RequestAnimationFrame (frameCounter s1 + 1)]\<rparr>)"

text \<open>
  \<^verbatim>\<open>play(iframe, callbacks)\<close>. \<open>t0\<close> is the clock when the start time is taken and
  \<open>t1\<close> the clock at the first run of the loop. The promise of the call is the next
  one. The two early returns resolve it at once; the inaccessible document calls
  \<^verbatim>\<open>onError\<close> of the object passed and rejects it. Otherwise the object is stored and
  wrapped, and the loop runs. Console messages are kept by their fixed part.
\<close>

definition play :: "iframe \<Rightarrow> nat \<Rightarrow> number \<Rightarrow> number \<Rightarrow> EventReplayer \<Rightarrow> EventReplayer" where
  "play ifr cb t0 t1 s =
     (let p = promiseCounter s + 1
      in if isPlaying s
         then s\<lparr>promiseCounter := p,
                 out := out s @ [ConsoleWarn ''[EventReplayer] Already playing'',
                                 PromiseResolved p]\<rparr>
         else if events s = []
         then s\<lparr>promiseCounter := p,
                 out := out s @ [ConsoleWarn ''[EventReplayer] No events to replay'']
                               @ callOnComplete s cb @ [PromiseResolved p]\<rparr>
         else
           (case contentDocument ifr of
              None \<Rightarrow>
                s\<lparr>promiseCounter := p,
                   out := out s @ [ReadContentDocument]
                                 @ callOnError s cb CannotAccessIframeDocument
                                 @ [PromiseRejected p CannotAccessIframeDocument]\<rparr>
            | Some d \<Rightarrow>
                replayLoop t1
                  (s\<lparr>targetDocument := Some d, callbacks := cb, isPlaying := True,
                     currentIndex := 0, startTime := t0, promiseCounter := p,
                     wrappers := (wrappers s)(cb := wrappers s cb @ [p]),
                     out := out s @ [ReadContentDocument,
                                     ConsoleLog ''[EventReplayer] Starting replay'']\<rparr>)))"

text \<open>\<^verbatim>\<open>stop()\<close>: cancels the pending frame, if there is one.\<close>

definition stop :: "EventReplayer \<Rightarrow> EventReplayer" where
  "stop s =
     s\<lparr>isPlaying := False, animationId := None, targetDocument := None,
       out := out s @ (case animationId s of
                         None \<Rightarrow> []
                       | Some h \<Rightarrow> [CancelAnimationFrame h])\<rparr>"

text \<open>The states a replayer can be in: any sequence of its public operations and ticks.\<close>

inductive reachable :: "EventReplayer \<Rightarrow> bool" where
  r_new: "reachable new_EventReplayer"
| r_loadEvents: "reachable s \<Longrightarrow> reachable (loadEvents evs s)"
| r_play: "reachable s \<Longrightarrow> reachable (play ifr cb t0 t1 s)"
| r_stop: "reachable s \<Longrightarrow> reachable (stop s)"
| r_tick: "reachable s \<Longrightarrow> reachable (replayLoop now s)"


subsection \<open>Notions used to state the properties of the loop\<close>

text \<open>
  The position just behind the longest run of events, from the cursor on, whose
  timestamps are at most the elapsed time.
\<close>

definition due_end :: "number \<Rightarrow> EventReplayer \<Rightarrow> nat" where
  "due_end elapsed s =
     currentIndex s
     + length (takeWhile (\<lambda>e. timestamp e \<le> elapsed) (drop (currentIndex s) (events s)))"

text \<open>
  What dispatching the events at positions \<open>i\<close> to \<open>j - 1\<close> one after the other emits:
  all effects of an event and its progress report stand before any effect of the next.
\<close>

definition batch :: "EventReplayer \<Rightarrow> nat \<Rightarrow> nat \<Rightarrow> replay_effect list" where
  "batch s i j = concat (map (emitted s) [i..<j])"


subsection \<open>Example values\<close>

definition ex_document :: document where
  "ex_document = \<lparr>querySelector = (\<lambda>sel. None), elementFromPoint = (\<lambda>px py. Some 7),
                   body = 1, documentElement = 0\<rparr>"

definition ex_iframe :: iframe where
  "ex_iframe = \<lparr>contentDocument = Some ex_document\<rparr>"

definition cross_origin_iframe :: iframe where
  "cross_origin_iframe = \<lparr>contentDocument = None\<rparr>"

definition ex_click :: "number \<Rightarrow> InteractionEvent" where
  "ex_click t = \<lparr>etype = Click, timestamp = t, ev_x = 10, ev_y = 20, target = None,
                 scrollTop = None, scrollLeft = None, touches = None, button = Some 0\<rparr>"

definition ex_playing :: EventReplayer where
  "ex_playing =
     play ex_iframe 1 0 0 (loadEvents [ex_click 500, ex_click 0, ex_click 250] new_EventReplayer)"


section \<open>Interaction recorders\<close>

subsection \<open>\<^verbatim>\<open>EventRecorder\<close>\<close>

text \<open>
  What a listener receives: a mouse event (client position, selector of the target if it
  is an element, button), a touch event (the touches, the changed touches, selector of
  the target), or any other event, for which only the scroll offsets that the handler
  reads off the target matter.
\<close>

datatype dom_input =
  MouseInput number number "string option" number
| TouchInput "TouchPoint list" "TouchPoint list" "string option"
| OtherInput number number

record EventRecorder =
  er_events :: "InteractionEvent list"
  er_startTime :: number
  er_isRecording :: bool
  er_lastMouseMoveTime :: number
  er_targetDocument :: "document option"

definition new_EventRecorder :: EventRecorder where
  "new_EventRecorder =
     \<lparr>er_events = [], er_startTime = 0, er_isRecording = False,
      er_lastMouseMoveTime = 0, er_targetDocument = None\<rparr>"

definition MOUSEMOVE_THROTTLE :: number where
  "MOUSEMOVE_THROTTLE = 16"

text \<open>\<^verbatim>\<open>start(iframe)\<close> at clock \<open>now\<close>; the boolean is the value returned.\<close>

definition er_start :: "iframe \<Rightarrow> number \<Rightarrow> EventRecorder \<Rightarrow> EventRecorder \<times> bool" where
  "er_start ifr now s =
     (if er_isRecording s then (s, False)
      else
        (case contentDocument ifr of
           None \<Rightarrow> (s, False)
         | Some d \<Rightarrow>
             (s\<lparr>er_targetDocument := Some d, er_events := [], er_startTime := now,
                er_isRecording := True\<rparr>, True)))"

text \<open>\<^verbatim>\<open>stop()\<close>: the state and the events returned.\<close>

definition er_stop :: "EventRecorder \<Rightarrow> EventRecorder \<times> InteractionEvent list" where
  "er_stop s =
     (if \<not> er_isRecording s then (s, er_events s)
      else (s\<lparr>er_isRecording := False, er_targetDocument := None\<rparr>, er_events s))"

definition er_getDuration :: "number \<Rightarrow> EventRecorder \<Rightarrow> number" where
  "er_getDuration now s =
     (if \<not> er_isRecording s
      then (if length (er_events s) > 0 then timestamp (last (er_events s)) else 0)
      else now - er_startTime s)"

definition er_clear :: "EventRecorder \<Rightarrow> EventRecorder" where
  "er_clear s = s\<lparr>er_events := []\<rparr>"

text \<open>\<^verbatim>\<open>createInteractionEvent\<close>: \<open>None\<close> is the \<^verbatim>\<open>null\<close> of the last line.\<close>

definition createInteractionEvent ::
  "InteractionEventType \<Rightarrow> dom_input \<Rightarrow> number \<Rightarrow> InteractionEvent option" where
  "createInteractionEvent ty inp ts =
     (case inp of
        MouseInput cx cy tgt b \<Rightarrow>
          Some \<lparr>etype = ty, timestamp = Math_round ts, ev_x = cx, ev_y = cy, target = tgt,
                scrollTop = None, scrollLeft = None, touches = None, button = Some b\<rparr>
      | TouchInput tchs changed tgt \<Rightarrow>
          (let primaryTouch = (case tchs of p # _ \<Rightarrow> Some p
                               | [] \<Rightarrow> (case changed of p # _ \<Rightarrow> Some p | [] \<Rightarrow> None))
           in Some \<lparr>etype = ty, timestamp = Math_round ts,
                    ev_x = (case primaryTouch of Some p \<Rightarrow> tp_x p | None \<Rightarrow> 0),
                    ev_y = (case primaryTouch of Some p \<Rightarrow> tp_y p | None \<Rightarrow> 0),
                    target = tgt, scrollTop = None, scrollLeft = None,
                    touches = Some tchs, button = None\<rparr>)
      | OtherInput st sl \<Rightarrow>
          (if ty = Scroll
           then Some \<lparr>etype = ty, timestamp = Math_round ts, ev_x = 0, ev_y = 0,
                      target = None, scrollTop = Some st, scrollLeft = Some sl,
                      touches = None, button = None\<rparr>
           else None))"

text \<open>The listener that \<^verbatim>\<open>createHandler(eventType)\<close> returns, called at clock \<open>now\<close>.\<close>

definition er_handler ::
  "InteractionEventType \<Rightarrow> dom_input \<Rightarrow> number \<Rightarrow> EventRecorder \<Rightarrow> EventRecorder" where
  "er_handler ty inp now s =
     (if \<not> er_isRecording s then s
      else
        let ts = now - er_startTime s
        in if ty = Mousemove \<and> ts - er_lastMouseMoveTime s < MOUSEMOVE_THROTTLE then s
           else
             let s1 = (if ty = Mousemove then s\<lparr>er_lastMouseMoveTime := ts\<rparr> else s)
             in (case createInteractionEvent ty inp ts of
                   None \<Rightarrow> s1
                 | Some e \<Rightarrow> s1\<lparr>er_events := er_events s1 @ [e]\<rparr>))"

subsection \<open>\<^verbatim>\<open>OverlayRecorder\<close>\<close>

text \<open>
  Of the DOM the overlay recorder keeps the iframe it found in the container; the
  overlay element and the listeners have no part in what is recorded. The bounding
  rectangle of the iframe is read at each event and is an argument of the handlers.
\<close>

record OverlayRecorder =
  ov_events :: "InteractionEvent list"
  ov_startTime :: number
  ov_isRecording :: bool
  ov_hasIframe :: bool
  ov_width :: number
  ov_height :: number
  ov_lastMouseX :: number
  ov_lastMouseY :: number
  ov_isMouseOverAd :: bool

definition new_OverlayRecorder :: OverlayRecorder where
  "new_OverlayRecorder =
     \<lparr>ov_events = [], ov_startTime = 0, ov_isRecording = False, ov_hasIframe = False,
      ov_width = 0, ov_height = 0, ov_lastMouseX = 0, ov_lastMouseY = 0,
      ov_isMouseOverAd = False\<rparr>"

text \<open>
  \<^verbatim>\<open>start(options)\<close>: \<open>found\<close> says whether the container holds an iframe.
\<close>

definition ov_start ::
  "bool \<Rightarrow> number \<Rightarrow> number \<Rightarrow> number \<Rightarrow> OverlayRecorder \<Rightarrow> OverlayRecorder \<times> bool" where
  "ov_start found w h now s =
     (if ov_isRecording s then (s, False)
      else if \<not> found then (s, False)
      else (s\<lparr>ov_hasIframe := True, ov_width := w, ov_height := h, ov_events := [],
               ov_startTime := now, ov_isRecording := True\<rparr>, True))"

definition ov_stop :: "OverlayRecorder \<Rightarrow> OverlayRecorder \<times> InteractionEvent list" where
  "ov_stop s =
     (if \<not> ov_isRecording s then (s, ov_events s)
      else (s\<lparr>ov_isRecording := False, ov_hasIframe := False\<rparr>, ov_events s))"

definition ov_getDuration :: "number \<Rightarrow> OverlayRecorder \<Rightarrow> number" where
  "ov_getDuration now s =
     (if \<not> ov_isRecording s
      then (if length (ov_events s) > 0 then timestamp (last (ov_events s)) else 0)
      else now - ov_startTime s)"

definition ov_clear :: "OverlayRecorder \<Rightarrow> OverlayRecorder" where
  "ov_clear s = s\<lparr>ov_events := []\<rparr>"

text \<open>\<^verbatim>\<open>onMouseMove\<close>: client position and the left and top of the iframe rectangle.\<close>

definition onMouseMove ::
  "number \<Rightarrow> number \<Rightarrow> number \<Rightarrow> number \<Rightarrow> OverlayRecorder \<Rightarrow> OverlayRecorder" where
  "onMouseMove clientX clientY rleft rtop s =
     (if \<not> ov_isRecording s \<or> \<not> ov_hasIframe s then s
      else
        let px = clientX - rleft; py = clientY - rtop;
            over = (px \<ge> 0 \<and> py \<ge> 0 \<and> px \<le> ov_width s \<and> py \<le> ov_height s);
            s1 = s\<lparr>ov_isMouseOverAd := over\<rparr>
        in if over then s1\<lparr>ov_lastMouseX := px, ov_lastMouseY := py\<rparr> else s1)"

text \<open>\<^verbatim>\<open>recordEvent\<close> and \<^verbatim>\<open>recordTouchEvent\<close>.\<close>

definition recordEvent ::
  "InteractionEventType \<Rightarrow> number \<Rightarrow> number \<Rightarrow> number \<Rightarrow> number option
   \<Rightarrow> OverlayRecorder \<Rightarrow> OverlayRecorder" where
  "recordEvent ty px py ts b s =
     s\<lparr>ov_events := ov_events s @
         [\<lparr>etype = ty, timestamp = Math_round ts, ev_x = Math_round px, ev_y = Math_round py,
           target = None, scrollTop = None, scrollLeft = None, touches = None,
           button = b\<rparr>]\<rparr>"

definition recordTouchEvent ::
  "InteractionEventType \<Rightarrow> number \<Rightarrow> number \<Rightarrow> number \<Rightarrow> TouchPoint list option
   \<Rightarrow> OverlayRecorder \<Rightarrow> OverlayRecorder" where
  "recordTouchEvent ty px py ts tchs s =
     s\<lparr>ov_events := ov_events s @
         [\<lparr>etype = ty, timestamp = Math_round ts, ev_x = Math_round px, ev_y = Math_round py,
           target = None, scrollTop = None, scrollLeft = None, touches = tchs,
           button = None\<rparr>]\<rparr>"

text \<open>\<^verbatim>\<open>onWindowBlur\<close>: a blur while the pointer is over the ad is taken for a click.\<close>

definition onWindowBlur :: "number \<Rightarrow> OverlayRecorder \<Rightarrow> OverlayRecorder" where
  "onWindowBlur now s =
     (if \<not> ov_isRecording s \<or> \<not> ov_isMouseOverAd s then s
      else recordEvent Click (ov_lastMouseX s) (ov_lastMouseY s) (now - ov_startTime s) None s)"

text \<open>
  \<^verbatim>\<open>onTouchStart\<close>: the touches of the event in client coordinates, and the left and
  top of the iframe rectangle.
\<close>

definition onTouchStart ::
  "TouchPoint list \<Rightarrow> number \<Rightarrow> number \<Rightarrow> number \<Rightarrow> OverlayRecorder \<Rightarrow> OverlayRecorder" where
  "onTouchStart tchs rleft rtop now s =
     (if \<not> ov_isRecording s \<or> \<not> ov_hasIframe s then s
      else
        (case tchs of
           [] \<Rightarrow> s
         | touch # _ \<Rightarrow>
             let px = tp_x touch - rleft; py = tp_y touch - rtop
             in if px < 0 \<or> py < 0 \<or> px > ov_width s \<or> py > ov_height s then s
                else recordTouchEvent Touchstart px py (now - ov_startTime s)
                       (Some (map (\<lambda>t. \<lparr>tp_x = Math_round (tp_x t - rleft),
                                         tp_y = Math_round (tp_y t - rtop),
                                         tp_identifier = tp_identifier t\<rparr>) tchs)) s))"

subsection \<open>Example session\<close>

text \<open>
  An overlay recording started at clock 1000 with two inferred clicks, at 1250.4 and at
  1800, and an event recording started at clock 0 with one mouse click at 41.5.
\<close>

definition ex_overlay :: OverlayRecorder where
  "ex_overlay =
     onWindowBlur 1800
       (onWindowBlur (12504 / 10)
          (onMouseMove 50 60 10 10
             (fst (ov_start True 300 250 1000 new_OverlayRecorder))))"

definition ex_recorder :: EventRecorder where
  "ex_recorder =
     er_handler Click (MouseInput 5 6 None 0) (415 / 10)
       (fst (er_start ex_iframe 0 new_EventRecorder))"


section \<open>Cropped-stream compositor (\<^verbatim>\<open>createCroppedStream\<close>)\<close>

text \<open>The bounding rectangle of an element, in CSS pixels of the viewport.\<close>

record DOMRect =
  rect_left :: number
  rect_top :: number
  rect_width :: number
  rect_height :: number

text \<open>
  What a tick of the draw loop reads from the page: the element that \<^verbatim>\<open>getElement()\<close>
  yields, by its bounding rectangle (\<open>None\<close> when the getter yields \<^verbatim>\<open>null\<close>), the size
  of the frames of the off-screen video and the size of the viewport. The four sizes are
  non-negative integers in the browser, far below \<open>2\<^sup>5\<^sup>3\<close>, so that they are doubles.
\<close>

record tick_env =
  element :: "DOMRect option"
  videoWidth :: nat
  videoHeight :: nat
  innerWidth :: nat
  innerHeight :: nat

text \<open>
  What the compositor does to the page. \<open>DrawImage sx sy sw sh dx dy dw dh\<close> is the call
  of \<^verbatim>\<open>ctx.drawImage\<close> with finite arguments; \<open>DrawImageNonFinite\<close> is that call when
  an argument is infinite or not a number (a viewport size is zero, so that a scale factor
  is a division by zero, or a value overflows); the canvas ignores such a call.
\<close>

datatype comp_effect =
  DrawImage number number number number number number number number
| DrawImageNonFinite
| RequestFrame nat
| CancelFrame "nat option"
| VideoPause
| VideoSrcObjectNull
| TrackStop nat

text \<open>
  The variables that the closures of \<^verbatim>\<open>createCroppedStream\<close> and of
  \<^verbatim>\<open>requestScreenCapture\<close> share: the target size, \<^verbatim>\<open>isRunning\<close>,
  \<^verbatim>\<open>animationId\<close> (undefined until the first frame is requested), whether the video
  has its source, the tracks of the raw stream and those of them that are stopped; then
  the handle counter of the environment and the trace of effects.
\<close>

record compositor =
  c_width :: number
  c_height :: number
  c_isRunning :: bool
  c_animationId :: "nat option"
  c_srcObject :: bool
  c_videoPaused :: bool
  c_rawTracks :: "nat list"
  c_stopped :: "nat list"
  c_frameCounter :: nat
  c_trace :: "comp_effect list"

definition createCroppedStream :: "nat list \<Rightarrow> number \<Rightarrow> number \<Rightarrow> compositor" where
  "createCroppedStream tracks w h =
     \<lparr>c_width = w, c_height = h, c_isRunning = True, c_animationId = None,
      c_srcObject = True, c_videoPaused = False, c_rawTracks = tracks, c_stopped = [],
      c_frameCounter = 0, c_trace = []\<rparr>"

text \<open>
  The source rectangle of lines 118 to 130, every operation in double arithmetic:
  \<open>(sx, sy, sw, sh)\<close>, or \<open>None\<close> when one of the four is not finite.
\<close>

definition adLeft :: "DOMRect \<Rightarrow> number \<Rightarrow> number option" where
  "adLeft rect w =
     fadd (Some (rect_left rect)) (fdiv (fsub (Some (rect_width rect)) (Some w)) 2)"

definition adTop :: "DOMRect \<Rightarrow> number \<Rightarrow> number option" where
  "adTop rect h =
     fadd (Some (rect_top rect)) (fdiv (fsub (Some (rect_height rect)) (Some h)) 2)"

definition scaleOf :: "nat \<Rightarrow> nat \<Rightarrow> number option" where
  "scaleOf v viewport = fdiv (Some (of_nat v)) (of_nat viewport)"

definition sourceRect ::
  "DOMRect \<Rightarrow> number \<Rightarrow> number \<Rightarrow> nat \<Rightarrow> nat \<Rightarrow> nat \<Rightarrow> nat
   \<Rightarrow> (number \<times> number \<times> number \<times> number) option" where
  "sourceRect rect w h vw vh viewportWidth viewportHeight =
     (let scaleX = scaleOf vw viewportWidth;
          scaleY = scaleOf vh viewportHeight
      in (case fmul (adLeft rect w) scaleX of
            None \<Rightarrow> None
          | Some sx \<Rightarrow>
              (case fmul (adTop rect h) scaleY of
                 None \<Rightarrow> None
               | Some sy \<Rightarrow>
                   (case fmul (Some w) scaleX of
                      None \<Rightarrow> None
                    | Some sw \<Rightarrow>
                        (case fmul (Some h) scaleY of
                           None \<Rightarrow> None
                         | Some sh \<Rightarrow> Some (sx, sy, sw, sh))))))"

definition requestFrame :: "compositor \<Rightarrow> compositor" where
  "requestFrame c =
     c\<lparr>c_animationId := Some (c_frameCounter c + 1),
       c_frameCounter := c_frameCounter c + 1,
       c_trace := c_trace c @ [RequestFrame (c_frameCounter c + 1)]\<rparr>"

text \<open>\<^verbatim>\<open>drawFrame\<close>, one tick.\<close>

definition drawFrame :: "tick_env \<Rightarrow> compositor \<Rightarrow> compositor" where
  "drawFrame env c =
     (if \<not> c_isRunning c then c
      else
        (case element env of
           None \<Rightarrow> requestFrame c
         | Some rect \<Rightarrow>
             requestFrame
               (if videoWidth env \<noteq> 0 \<and> videoHeight env \<noteq> 0
                then
                  (case sourceRect rect (c_width c) (c_height c) (videoWidth env)
                          (videoHeight env) (innerWidth env) (innerHeight env) of
                     None \<Rightarrow> c\<lparr>c_trace := c_trace c @ [DrawImageNonFinite]\<rparr>
                   | Some (sx, sy, sw, sh) \<Rightarrow>
                       c\<lparr>c_trace := c_trace c @
                           [DrawImage sx sy sw sh 0 0 (c_width c) (c_height c)]\<rparr>)
                else c)))"

text \<open>The \<^verbatim>\<open>cleanup\<close> of \<^verbatim>\<open>createCroppedStream\<close>.\<close>

definition cleanup :: "compositor \<Rightarrow> compositor" where
  "cleanup c =
     c\<lparr>c_isRunning := False, c_videoPaused := True, c_srcObject := False,
       c_trace := c_trace c @ [CancelFrame (c_animationId c), VideoPause, VideoSrcObjectNull]\<rparr>"

text \<open>\<^verbatim>\<open>rawStream.getTracks().forEach((track) => track.stop())\<close>.\<close>

fun stopTracks :: "nat list \<Rightarrow> compositor \<Rightarrow> compositor" where
  "stopTracks [] c = c"
| "stopTracks (t # ts) c =
     stopTracks ts (c\<lparr>c_stopped := c_stopped c @ [t], c_trace := c_trace c @ [TrackStop t]\<rparr>)"

text \<open>The \<^verbatim>\<open>combinedCleanup\<close> of \<^verbatim>\<open>requestScreenCapture\<close>.\<close>

definition combinedCleanup :: "compositor \<Rightarrow> compositor" where
  "combinedCleanup c = stopTracks (c_rawTracks (cleanup c)) (cleanup c)"

text \<open>Whether a rectangle lies within a frame of the given size.\<close>

definition within_frame :: "number \<times> number \<times> number \<times> number \<Rightarrow> nat \<Rightarrow> nat \<Rightarrow> bool" where
  "within_frame r vw vh =
     (case r of (sx, sy, sw, sh) \<Rightarrow>
        0 \<le> sx \<and> sx + sw \<le> of_nat vw \<and> 0 \<le> sy \<and> sy + sh \<le> of_nat vh)"

subsection \<open>Example values\<close>

text \<open>
  A 1000 by 800 tab captured at scale one, and a 300 by 250 ad whose container is
  scrolled ten pixels out of the viewport on the left.
\<close>

definition ex_env :: tick_env where
  "ex_env =
     \<lparr>element = Some \<lparr>rect_left = - 10, rect_top = 0, rect_width = 300, rect_height = 250\<rparr>,
      videoWidth = 1000, videoHeight = 800, innerWidth = 1000, innerHeight = 800\<rparr>"

definition ex_env_inside :: tick_env where
  "ex_env_inside =
     \<lparr>element = Some \<lparr>rect_left = 100, rect_top = 50, rect_width = 320, rect_height = 270\<rparr>,
      videoWidth = 2000, videoHeight = 1600, innerWidth = 1000, innerHeight = 800\<rparr>"

text \<open>
  A 1920 by 1080 capture of a 1366 by 768 viewport, the ad flush with the right edge of
  the viewport.
\<close>

definition ex_env_edge :: tick_env where
  "ex_env_edge =
     \<lparr>element = Some \<lparr>rect_left = 1066, rect_top = 0, rect_width = 300, rect_height = 250\<rparr>,
      videoWidth = 1920, videoHeight = 1080, innerWidth = 1366, innerHeight = 768\<rparr>"

definition ex_env_reloading :: tick_env where
  "ex_env_reloading = ex_env_inside\<lparr>element := None\<rparr>"

definition ex_compositor :: compositor where
  "ex_compositor = createCroppedStream [11, 12] 300 250"


section \<open>Recorder (\<^verbatim>\<open>createRecorder\<close>)\<close>

text \<open>
  An encoded chunk and the final artifact are byte sequences; \<^verbatim>\<open>new Blob(chunks)\<close> is
  their concatenation and \<^verbatim>\<open>size\<close> the length.
\<close>

type_synonym blob = "nat list"

text \<open>The \<^verbatim>\<open>state\<close> attribute of the browser's \<^verbatim>\<open>MediaRecorder\<close>.\<close>

datatype mr_state = MInactive | MRecording | MPaused

datatype rec_error =
  NotSupported
| CaptureRejected
| MimeTypeNotSupported
| InvalidStateError
| NoDataRecorded
| RecordingError

text \<open>How a promise of \<^verbatim>\<open>stop()\<close> is settled.\<close>

datatype stop_outcome = Resolved blob | Rejected rec_error

text \<open>
  The variables closed over by the recorder instance, the fields of its \<^verbatim>\<open>state\<close>
  object, and of the \<^verbatim>\<open>MediaRecorder\<close> its state and its two handler attributes
  \<^verbatim>\<open>onstop\<close> and \<^verbatim>\<open>onerror\<close>. Each call of \<^verbatim>\<open>stop()\<close> makes a promise, identified by
  a number, and installs handlers that settle that promise; a handler attribute holds
  the promise of the handler installed last. \<open>promises\<close> gives the outcome of every
  promise settled so far. The last field says whether the tracks of the stream are live.
\<close>

record RecorderInstance =
  chunks :: "blob list"
  rec_startTime :: number
  pausedDuration :: number
  pauseStart :: number
  rec_isRecording :: bool
  rec_isPaused :: bool
  rec_duration :: number
  mediaRecorder :: mr_state
  mr_onstop :: "nat option"
  mr_onerror :: "nat option"
  stopCalls :: nat
  promises :: "nat \<Rightarrow> stop_outcome option"
  streamLive :: bool

text \<open>
  \<^verbatim>\<open>createRecorder(stream)\<close>; the argument says whether
  \<^verbatim>\<open>MediaRecorder.isTypeSupported(mimeType)\<close> holds.
\<close>

definition createRecorder :: "bool \<Rightarrow> rec_error + RecorderInstance" where
  "createRecorder typeSupported =
     (if \<not> typeSupported then Inl MimeTypeNotSupported
      else Inr \<lparr>chunks = [], rec_startTime = 0, pausedDuration = 0, pauseStart = 0,
                rec_isRecording = False, rec_isPaused = False, rec_duration = 0,
                mediaRecorder = MInactive, mr_onstop = None, mr_onerror = None,
                stopCalls = 0, promises = (\<lambda>p. None), streamLive = True\<rparr>)"

text \<open>\<^verbatim>\<open>mediaRecorder.ondataavailable\<close>: empty data is dropped.\<close>

definition ondataavailable :: "blob \<Rightarrow> RecorderInstance \<Rightarrow> RecorderInstance" where
  "ondataavailable data r = (if length data > 0 then r\<lparr>chunks := chunks r @ [data]\<rparr> else r)"

text \<open>
  \<^verbatim>\<open>start()\<close>. The assignments come first; \<^verbatim>\<open>mediaRecorder.start(100)\<close> then throws
  \<^verbatim>\<open>InvalidStateError\<close> unless the encoder is inactive.
\<close>

definition rec_start :: "number \<Rightarrow> RecorderInstance \<Rightarrow> RecorderInstance \<times> rec_error option" where
  "rec_start now r =
     (let r1 = r\<lparr>chunks := [], rec_startTime := now, pausedDuration := 0,
                 rec_isRecording := True, rec_isPaused := False\<rparr>
      in if mediaRecorder r1 = MInactive then (r1\<lparr>mediaRecorder := MRecording\<rparr>, None)
         else (r1, Some InvalidStateError))"

text \<open>\<^verbatim>\<open>resolve\<close> and \<^verbatim>\<open>reject\<close>: a promise that is settled keeps its outcome.\<close>

definition settle :: "nat \<Rightarrow> stop_outcome \<Rightarrow> RecorderInstance \<Rightarrow> RecorderInstance" where
  "settle p outcome r =
     (if promises r p = None then r\<lparr>promises := (promises r)(p := Some outcome)\<rparr> else r)"

text \<open>
  \<^verbatim>\<open>stop()\<close>: the state and the promise returned. The executor of the promise installs
  the two handlers, replacing those of an earlier call, and calls
  \<^verbatim>\<open>mediaRecorder.stop()\<close>: an active encoder becomes inactive, and the browser will
  deliver, in later tasks, the data still buffered and then the \<^verbatim>\<open>stop\<close> event; an
  inactive encoder is left as it is. Nothing is settled by the call itself.
\<close>

definition rec_stop :: "RecorderInstance \<Rightarrow> RecorderInstance \<times> nat" where
  "rec_stop r =
     (let p = stopCalls r + 1
      in (r\<lparr>stopCalls := p, mr_onstop := Some p, mr_onerror := Some p,
            mediaRecorder := MInactive\<rparr>, p))"

text \<open>
  The \<^verbatim>\<open>stop\<close> event of the encoder, delivered at clock \<open>now\<close>: the handler installed,
  if there is one, runs.
\<close>

definition stop_event :: "number \<Rightarrow> RecorderInstance \<Rightarrow> RecorderInstance" where
  "stop_event now r =
     (case mr_onstop r of
        None \<Rightarrow> r\<lparr>mediaRecorder := MInactive\<rparr>
      | Some p \<Rightarrow>
          let r1 = r\<lparr>mediaRecorder := MInactive, rec_isRecording := False,
                      rec_isPaused := False,
                      rec_duration := now - rec_startTime r - pausedDuration r\<rparr>
          in if length (chunks r1) = 0 then settle p (Rejected NoDataRecorded) r1
             else settle p (Resolved (concat (chunks r1))) r1)"




text \<open>\<^verbatim>\<open>getState()\<close>: \<^verbatim>\<open>(isRecording, isPaused, duration)\<close>.\<close>

definition getState :: "number \<Rightarrow> RecorderInstance \<Rightarrow> bool \<times> bool \<times> number" where
  "getState now r =
     (rec_isRecording r, rec_isPaused r,
      if rec_isRecording r then now - rec_startTime r - pausedDuration r else rec_duration r)"






section \<open>The recording hook (\<^verbatim>\<open>useRecorder\<close>)\<close>

text \<open>
  A crop configuration, by its target size; its element is resolved at each tick of the
  compositor and plays no part here.
\<close>

record CropConfig =
  cc_width :: number
  cc_height :: number

text \<open>
  What the browser answers when a recording is set up: whether \<^verbatim>\<open>getDisplayMedia\<close>
  resolves (the user grants the capture) and whether the encoder supports the MIME type.
\<close>

record capture_env =
  granted :: bool
  typeSupported :: bool

text \<open>
  The state and the refs of the hook, and the messages written by \<^verbatim>\<open>console.error\<close>.
  \<^verbatim>\<open>streamRef\<close> and \<^verbatim>\<open>cropCleanupRef\<close> are kept as ``is set''.
\<close>

record useRecorder =
  isSupported :: bool
  st_isRecording :: bool
  st_isProcessing :: bool
  isPrepared :: bool
  isPreparedRef :: bool
  recorderRef :: "RecorderInstance option"
  streamRef :: bool
  cropCleanupRef :: bool
  console :: "string list"

definition new_useRecorder :: "bool \<Rightarrow> useRecorder" where
  "new_useRecorder supported =
     \<lparr>isSupported = supported, st_isRecording = False, st_isProcessing = False,
      isPrepared = False, isPreparedRef = False, recorderRef = None, streamRef = False,
      cropCleanupRef = False, console = []\<rparr>"

text \<open>
  \<^verbatim>\<open>prepareRecording(cropConfig)\<close>: the new state and the error thrown, if any. The
  unsupported browser throws before the \<^verbatim>\<open>try\<close>; the other failures are logged and
  rethrown.
\<close>

definition prepareRecording ::
  "CropConfig option \<Rightarrow> capture_env \<Rightarrow> useRecorder \<Rightarrow> useRecorder \<times> rec_error option" where
  "prepareRecording cropConfig env s =
     (if \<not> isSupported s then (s, Some NotSupported)
      else if \<not> granted env
      then (s\<lparr>console := console s @ [''Failed to prepare recording:'']\<rparr>,
            Some CaptureRejected)
      else
        let s1 = s\<lparr>streamRef := True, cropCleanupRef := (cropConfig \<noteq> None)\<rparr>
        in (case createRecorder (typeSupported env) of
              Inl e \<Rightarrow>
                (s1\<lparr>console := console s1 @ [''Failed to prepare recording:'']\<rparr>, Some e)
            | Inr r \<Rightarrow>
                (s1\<lparr>recorderRef := Some r, isPreparedRef := True, isPrepared := True\<rparr>,
                 None)))"

text \<open>\<^verbatim>\<open>beginPreparedRecording()\<close> at clock \<open>now\<close>.\<close>

definition beginPreparedRecording ::
  "number \<Rightarrow> useRecorder \<Rightarrow> useRecorder \<times> rec_error option" where
  "beginPreparedRecording now s =
     (case recorderRef s of
        None \<Rightarrow> (s\<lparr>console := console s @ [''No prepared recording to start'']\<rparr>, None)
      | Some r \<Rightarrow>
          if \<not> isPreparedRef s
          then (s\<lparr>console := console s @ [''No prepared recording to start'']\<rparr>, None)
          else
            (case rec_start now r of
               (r1, Some e) \<Rightarrow> (s\<lparr>recorderRef := Some r1\<rparr>, Some e)
             | (r1, None) \<Rightarrow>
                 (s\<lparr>recorderRef := Some r1, isPreparedRef := False, isPrepared := False,
                    st_isRecording := True\<rparr>, None)))"

text \<open>\<^verbatim>\<open>startRecording(cropConfig)\<close>, the one-call path.\<close>

definition startRecording ::
  "CropConfig option \<Rightarrow> capture_env \<Rightarrow> number \<Rightarrow> useRecorder \<Rightarrow> useRecorder \<times> rec_error option" where
  "startRecording cropConfig env now s =
     (if \<not> isSupported s then (s, Some NotSupported)
      else if \<not> granted env
      then (s\<lparr>console := console s @ [''Failed to start recording:'']\<rparr>, Some CaptureRejected)
      else
        let s1 = s\<lparr>streamRef := True, cropCleanupRef := (cropConfig \<noteq> None)\<rparr>
        in (case createRecorder (typeSupported env) of
              Inl e \<Rightarrow> (s1\<lparr>console := console s1 @ [''Failed to start recording:'']\<rparr>, Some e)
            | Inr r \<Rightarrow>
                (case rec_start now r of
                   (r1, Some e) \<Rightarrow>
                     (s1\<lparr>recorderRef := Some r1,
                         console := console s1 @ [''Failed to start recording:'']\<rparr>, Some e)
                 | (r1, None) \<Rightarrow>
                     (s1\<lparr>recorderRef := Some r1, st_isRecording := True\<rparr>, None))))"

text \<open>\<^verbatim>\<open>cleanupPrepared()\<close>: what is left of a prepared session is released.\<close>

definition cleanupPrepared :: "useRecorder \<Rightarrow> useRecorder" where
  "cleanupPrepared s =
     s\<lparr>recorderRef := None, streamRef := False, cropCleanupRef := False,
       isPreparedRef := False, isPrepared := False\<rparr>"


section \<open>The reload-and-record orchestrator (\<^verbatim>\<open>handleReloadAndRecord\<close>)\<close>

datatype RecordingMode = Fullscreen | Clip

text \<open>The steps of the orchestrator that are visible from outside, in order.\<close>

datatype orch_step =
  SetIsStartingCapture bool
| PrepareRecording "CropConfig option"
| SetCountdown "nat option"
| Wait nat
| SetIsAdReady bool
| SetPreviewKey nat
| BeginPreparedRecording
| ConsoleError string

record page =
  loadedTag :: "string option"
  recordingMode :: RecordingMode
  dimensions :: "number \<times> number"
  countdown :: "nat option"
  isAdReady :: bool
  previewKey :: nat
  isStartingCapture :: bool
  recorder :: useRecorder
  steps :: "orch_step list"

text \<open>
  \<^verbatim>\<open>for (let i = 3; i >= 1; i--) { setCountdown(i); await (1000 ms) }\<close>, from \<open>i\<close> down.
\<close>

fun countdownLoop :: "nat \<Rightarrow> page \<Rightarrow> page" where
  "countdownLoop 0 p = p"
| "countdownLoop (Suc n) p =
     countdownLoop n
       (p\<lparr>countdown := Some (Suc n),
          steps := steps p @ [SetCountdown (Some (Suc n)), Wait 1000]\<rparr>)"

text \<open>The \<^verbatim>\<open>catch\<close> and the \<^verbatim>\<open>finally\<close> block.\<close>

definition catch_block :: "page \<Rightarrow> page" where
  "catch_block p =
     p\<lparr>countdown := None,
       steps := steps p @ [ConsoleError ''Failed to start reload-and-record:'',
                           SetCountdown None]\<rparr>"

definition finally_block :: "page \<Rightarrow> page" where
  "finally_block p =
     p\<lparr>isStartingCapture := False, steps := steps p @ [SetIsStartingCapture False]\<rparr>"

definition cropConfigOf :: "page \<Rightarrow> CropConfig option" where
  "cropConfigOf p =
     (if recordingMode p = Clip
      then Some \<lparr>cc_width = fst (dimensions p), cc_height = snd (dimensions p)\<rparr>
      else None)"

text \<open>
  \<^verbatim>\<open>handleReloadAndRecord\<close>; \<open>now\<close> is the clock when the recording begins. An empty
  tag is falsy like \<^verbatim>\<open>null\<close>.
\<close>

definition handleReloadAndRecord :: "capture_env \<Rightarrow> number \<Rightarrow> page \<Rightarrow> page" where
  "handleReloadAndRecord env now p =
     (if loadedTag p = None \<or> loadedTag p = Some [] then p
      else
        let p1 = p\<lparr>isStartingCapture := True, steps := steps p @ [SetIsStartingCapture True]\<rparr>;
            cropConfig = cropConfigOf p1
        in (case prepareRecording cropConfig env (recorder p1) of
              (h, Some e) \<Rightarrow>
                finally_block
                  (catch_block (p1\<lparr>recorder := h,
                                    steps := steps p1 @ [PrepareRecording cropConfig]\<rparr>))
            | (h, None) \<Rightarrow>
                let p2 = countdownLoop 3
                           (p1\<lparr>recorder := h,
                               steps := steps p1 @ [PrepareRecording cropConfig]\<rparr>);
                    p3 = p2\<lparr>countdown := None, isAdReady := False,
                            previewKey := previewKey p2 + 1,
                            steps := steps p2 @ [SetCountdown None, SetIsAdReady False,
                                                 SetPreviewKey (previewKey p2 + 1)]\<rparr>
                in (case beginPreparedRecording now (recorder p3) of
                      (h', Some e) \<Rightarrow>
                        finally_block
                          (catch_block (p3\<lparr>recorder := h',
                                            steps := steps p3 @ [BeginPreparedRecording]\<rparr>))
                    | (h', None) \<Rightarrow>
                        finally_block
                          (p3\<lparr>recorder := h',
                              steps := steps p3 @ [BeginPreparedRecording]\<rparr>))))"

subsection \<open>Example values\<close>

definition ex_granting :: capture_env where
  "ex_granting = \<lparr>granted = True, typeSupported = True\<rparr>"

definition ex_denying :: capture_env where
  "ex_denying = \<lparr>granted = False, typeSupported = True\<rparr>"

definition ex_page :: page where
  "ex_page =
     \<lparr>loadedTag = Some ''<script></script>'', recordingMode = Clip, dimensions = (300, 250),
      countdown = None, isAdReady = True, previewKey = 4, isStartingCapture = False,
      recorder = new_useRecorder True, steps = []\<rparr>"

definition ex_recording :: RecorderInstance where
  "ex_recording =
     ondataavailable [1, 2, 3]
       (fst (rec_start 0 (case createRecorder True of Inr r \<Rightarrow> r)))"

definition ex_recording_empty :: RecorderInstance where
  "ex_recording_empty =
     ondataavailable [] (fst (rec_start 0 (case createRecorder True of Inr r \<Rightarrow> r)))"


section \<open>Properties of the event replayer\<close>

text \<open>
  C4. For every input event list, \<^verbatim>\<open>loadEvents\<close> leaves in the replayer a sequence
  sorted by non-decreasing timestamp that is a permutation of the input (events with
  equal timestamps keep their input order), and it resets the cursor to the start.
\<close>

theorem loadEvents_sorted_permutation:
  "sorted (map timestamp (events (loadEvents evs s)))
   \<and> mset (events (loadEvents evs s)) = mset evs
   \<and> filter (\<lambda>e. timestamp e = t) (events (loadEvents evs s)) = filter (\<lambda>e. timestamp e = t) evs
   \<and> currentIndex (loadEvents evs s) = 0"
  by (simp add: loadEvents_def sort_key_stable)

lemma emitted_cong:
  "events s' = events s \<Longrightarrow> targetDocument s' = targetDocument s \<Longrightarrow> callbacks s' = callbacks s
   \<Longrightarrow> emitted s' = emitted s"
  by (rule ext) (simp add: emitted_def)

lemma due_end_step:
  assumes "currentIndex s < length (events s)" "timestamp (events s ! currentIndex s) \<le> el"
  shows "due_end el (dispatchStep s) = due_end el s"
proof -
  have "drop (currentIndex s) (events s) = events s ! currentIndex s # drop (Suc (currentIndex s)) (events s)"
    using assms(1) by (simp add: Cons_nth_drop_Suc)
  then show ?thesis using assms(2) by (simp add: due_end_def dispatchStep_def)
qed

lemma due_end_stay:
  assumes "\<not> (currentIndex s < length (events s) \<and> timestamp (events s ! currentIndex s) \<le> el)"
  shows "due_end el s = currentIndex s"
proof (cases "currentIndex s < length (events s)")
  case True
  then have "drop (currentIndex s) (events s) = events s ! currentIndex s # drop (Suc (currentIndex s)) (events s)"
    by (simp add: Cons_nth_drop_Suc)
  then show ?thesis using assms True by (simp add: due_end_def)
next
  case False then show ?thesis by (simp add: due_end_def)
qed

lemma due_end_ge: "currentIndex s \<le> due_end el s"
  by (simp add: due_end_def)

lemma batch_first: "i < j \<Longrightarrow> batch s i j = emitted s i @ batch s (Suc i) j"
  by (simp add: batch_def upt_conv_Cons)

lemma dispatchDue_result:
  "dispatchDue el s = s\<lparr>currentIndex := due_end el s,
                         out := out s @ batch s (currentIndex s) (due_end el s)\<rparr>"
proof (induction el s rule: dispatchDue.induct)
  case (1 el s)
  show ?case
  proof (cases "currentIndex s < length (events s) \<and> timestamp (events s ! currentIndex s) \<le> el")
    case True
    then have de: "due_end el (dispatchStep s) = due_end el s"
      by (simp add: due_end_step)
    have lt: "currentIndex s < due_end el s"
      using due_end_ge[of "dispatchStep s" el] de by (simp add: dispatchStep_def)
    have em: "emitted (dispatchStep s) = emitted s"
      by (rule emitted_cong) (simp_all add: dispatchStep_def)
    have b: "batch (dispatchStep s) = batch s"
      by (intro ext) (simp add: batch_def em)
    have "dispatchDue el s = dispatchDue el (dispatchStep s)"
      using True by (subst dispatchDue.simps) simp
    also have "\<dots> = (dispatchStep s)\<lparr>currentIndex := due_end el s,
        out := out (dispatchStep s) @ batch s (currentIndex (dispatchStep s)) (due_end el s)\<rparr>"
      using "1.IH"[OF True] de b by simp
    also have "\<dots> = s\<lparr>currentIndex := due_end el s,
                         out := out s @ batch s (currentIndex s) (due_end el s)\<rparr>"
      using batch_first[OF lt, of s] by (simp add: dispatchStep_def)
    finally show ?thesis .
  next
    case False
    then have "due_end el s = currentIndex s" by (rule due_end_stay)
    moreover have "dispatchDue el s = s" using False by (subst dispatchDue.simps) auto
    ultimately show ?thesis by (simp add: batch_def)
  qed
qed



lemma dispatchDue_fields:
  "events (dispatchDue el s) = events s"
  "isPlaying (dispatchDue el s) = isPlaying s"
  "targetDocument (dispatchDue el s) = targetDocument s"
  "callbacks (dispatchDue el s) = callbacks s"
  "wrappers (dispatchDue el s) = wrappers s"
  "promiseCounter (dispatchDue el s) = promiseCounter s"
  "frameCounter (dispatchDue el s) = frameCounter s"
  "startTime (dispatchDue el s) = startTime s"
  "animationId (dispatchDue el s) = animationId s"
  "currentIndex (dispatchDue el s) = due_end el s"
  "out (dispatchDue el s) = out s @ batch s (currentIndex s) (due_end el s)"
  by (simp_all add: dispatchDue_result)




lemma replayLoop_playing_doc:
  "isPlaying (replayLoop now s) \<Longrightarrow> targetDocument s \<noteq> None \<Longrightarrow> isPlaying s"
  "targetDocument (replayLoop now s) = targetDocument s"
  by (auto simp add: replayLoop_def Let_def dispatchDue_fields split: if_splits)




text \<open>
  C9 (as amended). On a replayer that is not already playing, \<^verbatim>\<open>play\<close> with an empty
  loaded event list warns, calls the completion callback of the object passed and
  returns, its promise resolved: the state is otherwise unchanged, nothing is dispatched
  and the content document of the iframe is never read, so the result is the same
  against a cross-origin iframe. On a replayer that is already playing, \<^verbatim>\<open>play\<close> only
  warns ``Already playing'' and returns, its promise resolved: no completion callback is
  called, whatever the loaded events.
\<close>

theorem play_empty_completes_without_access:
  "(\<not> isPlaying s \<and> events s = [] \<longrightarrow>
      play ifr cb t0 t1 s =
        s\<lparr>promiseCounter := promiseCounter s + 1,
          out := out s @ [ConsoleWarn ''[EventReplayer] No events to replay'', OnComplete cb]
                        @ map PromiseResolved (wrappers s cb)
                        @ [PromiseResolved (promiseCounter s + 1)]\<rparr>
      \<and> ReadContentDocument \<notin> set (drop (length (out s)) (out (play ifr cb t0 t1 s)))
      \<and> (\<forall>d. Dom d \<notin> set (drop (length (out s)) (out (play ifr cb t0 t1 s)))))
   \<and> (isPlaying s \<longrightarrow>
        play ifr cb t0 t1 s =
          s\<lparr>promiseCounter := promiseCounter s + 1,
            out := out s @ [ConsoleWarn ''[EventReplayer] Already playing'',
                            PromiseResolved (promiseCounter s + 1)]\<rparr>
        \<and> (\<forall>c. OnComplete c \<notin> set (drop (length (out s)) (out (play ifr cb t0 t1 s)))))"
  by (auto simp add: play_def Let_def callOnComplete_def)

lemma ex_loaded:
  "loadEvents [ex_click 500, ex_click 0, ex_click 250] new_EventReplayer
   = new_EventReplayer\<lparr>events := [ex_click 0, ex_click 250, ex_click 500]\<rparr>"
  by (simp add: loadEvents_def ex_click_def new_EventReplayer_def)

lemma ex_playing_fields:
  "events ex_playing = [ex_click 0, ex_click 250, ex_click 500]"
  "isPlaying ex_playing" "currentIndex ex_playing = 1" "startTime ex_playing = 0"
  "targetDocument ex_playing = Some ex_document" "promiseCounter ex_playing = 1"
  unfolding ex_playing_def ex_loaded
  by (simp_all add: play_def new_EventReplayer_def ex_iframe_def replayLoop_def Let_def
      dispatchDue_fields due_end_def ex_click_def callOnComplete_def)

lemma ex_playing_reachable: "reachable ex_playing"
  unfolding ex_playing_def by (intro reachable.intros)


theorem play_empty_completes_without_access_witness:
  "\<not> isPlaying new_EventReplayer \<and> events new_EventReplayer = []
   \<and> out (play cross_origin_iframe 1 0 0 new_EventReplayer)
       = [ConsoleWarn ''[EventReplayer] No events to replay'', OnComplete 1, PromiseResolved 1]
   \<and> isPlaying ex_playing
   \<and> out (play ex_iframe 2 5 5 ex_playing)
       = out ex_playing @ [ConsoleWarn ''[EventReplayer] Already playing'', PromiseResolved 2]"
proof -
  have n: "\<not> isPlaying new_EventReplayer" "events new_EventReplayer = []"
    "out new_EventReplayer = []" "wrappers new_EventReplayer = (\<lambda>c. [])"
    "promiseCounter new_EventReplayer = 0"
    by (simp_all add: new_EventReplayer_def)
  show ?thesis
    using play_empty_completes_without_access [of new_EventReplayer cross_origin_iframe 1 0 0]
      play_empty_completes_without_access [of ex_playing ex_iframe 2 5 5]
    by (simp add: n ex_playing_fields)
qed

text \<open>
  C9 as stated fails on a replayer that is already playing: after a replay of three
  clicks has started, loading an empty list and calling \<^verbatim>\<open>play\<close> again only warns
  ``Already playing''; the completion callback of that call is not invoked.
\<close>

theorem play_empty_while_playing_counterexample:
  "reachable (loadEvents [] ex_playing)
   \<and> events (loadEvents [] ex_playing) = []
   \<and> out (play ex_iframe 2 5 5 (loadEvents [] ex_playing))
       = out (loadEvents [] ex_playing)
         @ [ConsoleWarn ''[EventReplayer] Already playing'', PromiseResolved 2]
   \<and> OnComplete 2 \<notin> set (out (play ex_iframe 2 5 5 (loadEvents [] ex_playing)))"
proof -
  have r: "reachable (loadEvents [] ex_playing)"
    using ex_playing_reachable by (rule reachable.intros)
  have o: "out ex_playing =
     [ReadContentDocument, ConsoleLog ''[EventReplayer] Starting replay'',
      Dom (MouseEvent ''click'' 7 10 20 0 0), Dom (PointerEvent ''click'' 7 10 20 0 0 ''mouse''),
      OnProgress 1 1 3, RequestAnimationFrame 1]"
    unfolding ex_playing_def ex_loaded
    by (simp add: play_def new_EventReplayer_def ex_iframe_def replayLoop_def Let_def
      dispatchDue_fields due_end_def ex_click_def batch_def emitted_def dispatchEvent_def
      findTarget_def dispatchMouseEvent_def ex_document_def)
  show ?thesis using r
    by (simp add: play_def Let_def loadEvents_def ex_playing_fields o)
qed

text \<open>
  A callbacks object that is passed to \<^verbatim>\<open>play\<close> a second time carries the wrapper of the
  first call: when the second replay completes, the caller's callback is called once
  and the promises of both calls are resolved, the older first.
\<close>

lemma play_reused_callbacks_example:
  "out (play ex_iframe 1 0 0
         (play ex_iframe 1 0 0 (loadEvents [ex_click 0] new_EventReplayer)))
   = [ReadContentDocument, ConsoleLog ''[EventReplayer] Starting replay'',
      Dom (MouseEvent ''click'' 7 10 20 0 0), Dom (PointerEvent ''click'' 7 10 20 0 0 ''mouse''),
      OnProgress 1 1 1, ConsoleLog ''[EventReplayer] Replay complete'',
      OnComplete 1, PromiseResolved 1,
      ReadContentDocument, ConsoleLog ''[EventReplayer] Starting replay'',
      Dom (MouseEvent ''click'' 7 10 20 0 0), Dom (PointerEvent ''click'' 7 10 20 0 0 ''mouse''),
      OnProgress 1 1 1, ConsoleLog ''[EventReplayer] Replay complete'',
      OnComplete 1, PromiseResolved 1, PromiseResolved 2]"
proof -
  have l: "loadEvents [ex_click 0] new_EventReplayer
             = new_EventReplayer\<lparr>events := [ex_click 0]\<rparr>"
    by (simp add: loadEvents_def new_EventReplayer_def)
  show ?thesis
    unfolding l
    by (simp add: play_def new_EventReplayer_def ex_iframe_def replayLoop_def Let_def
      dispatchDue_fields due_end_def ex_click_def batch_def emitted_def dispatchEvent_def
      findTarget_def dispatchMouseEvent_def ex_document_def callOnComplete_def)
qed

section \<open>Properties of the interaction recorders\<close>

text \<open>
  C10. For both interaction recorders, once \<^verbatim>\<open>stop()\<close> has returned,
  \<^verbatim>\<open>getDuration()\<close> is the timestamp of the last recorded event, or 0 when no event was
  recorded, whatever the clock reads then and whenever the recording was stopped: the
  time between the last event and the stop is not part of it. The events returned by
  \<^verbatim>\<open>stop()\<close> are the recorded ones.
\<close>

theorem getDuration_after_stop:
  "er_getDuration now (fst (er_stop s))
     = (if er_events s = [] then 0 else timestamp (last (er_events s)))
   \<and> ov_getDuration now' (fst (ov_stop r))
     = (if ov_events r = [] then 0 else timestamp (last (ov_events r)))
   \<and> \<not> er_isRecording (fst (er_stop s)) \<and> \<not> ov_isRecording (fst (ov_stop r))
   \<and> snd (er_stop s) = er_events s \<and> snd (ov_stop r) = ov_events r"
  by (simp add: er_getDuration_def er_stop_def ov_getDuration_def ov_stop_def)

text \<open>
  In the example sessions the recorders report the running clock while they record (4000
  and 5000 at clock 5000) and the last timestamp (800 and 42) once they are stopped.
\<close>

lemma ex_overlay_events:
  "map timestamp (ov_events ex_overlay) = [250, 800]"
  "ov_isRecording ex_overlay" "ov_startTime ex_overlay = 1000"
  by (simp_all add: ex_overlay_def onWindowBlur_def onMouseMove_def ov_start_def
      new_OverlayRecorder_def recordEvent_def Math_round_def Let_def floor_eq_iff)

lemma ex_recorder_events:
  "map timestamp (er_events ex_recorder) = [42]"
  "er_isRecording ex_recorder" "er_startTime ex_recorder = 0"
  by (simp_all add: ex_recorder_def er_handler_def er_start_def ex_iframe_def
      new_EventRecorder_def createInteractionEvent_def Math_round_def Let_def
      MOUSEMOVE_THROTTLE_def floor_eq_iff)

lemma getDuration_example:
  "ov_getDuration 5000 ex_overlay = 4000 \<and> ov_getDuration 9999 (fst (ov_stop ex_overlay)) = 800
   \<and> er_getDuration 5000 ex_recorder = 5000 \<and> er_getDuration 9999 (fst (er_stop ex_recorder)) = 42"
proof -
  have "ov_events ex_overlay \<noteq> []" "er_events ex_recorder \<noteq> []"
    using ex_overlay_events(1) ex_recorder_events(1) by auto
  moreover have "timestamp (last (ov_events ex_overlay)) = 800"
    using ex_overlay_events(1) calculation(1) by (metis last_map last.simps list.distinct(1))
  moreover have "timestamp (last (er_events ex_recorder)) = 42"
    using ex_recorder_events(1) calculation(2) by (metis last_map last.simps)
  ultimately show ?thesis
    by (simp add: ov_getDuration_def er_getDuration_def ov_stop_def er_stop_def
        ex_overlay_events ex_recorder_events)
qed

section \<open>Properties of the compositor\<close>

subsection \<open>The rounding\<close>

text \<open>
  The exponent found is the binary exponent; the rounded value is the multiple of the
  unit in the last place that is nearest to the exact one; and rounding keeps the sign.
\<close>

lemma of_int_powi_bounds:
  fixes p :: int
  assumes "0 < p"
  shows "(2::rat) powi (bitlen p - 1) \<le> of_int p" and "of_int p < (2::rat) powi (bitlen p)"
proof -
  from bitlen_bounds [OF assms]
  have lo: "2 ^ nat (bitlen p - 1) \<le> p" and hi: "p < 2 ^ nat (bitlen p)" by simp_all
  have b1: "1 \<le> bitlen p" using assms bitlen_eq_zero_iff [of p] bitlen_nonneg [of p] by linarith
  have "(2::rat) powi (bitlen p - 1) = 2 ^ nat (bitlen p - 1)"
    using b1 by (simp add: power_int_nonneg_exp)
  also have "\<dots> = of_int (2 ^ nat (bitlen p - 1))" by simp
  also have "\<dots> \<le> of_int p" using lo by (simp only: of_int_le_iff)
  finally show "(2::rat) powi (bitlen p - 1) \<le> of_int p" .
  have "(of_int p :: rat) < of_int (2 ^ nat (bitlen p))" using hi by (simp only: of_int_less_iff)
  also have "\<dots> = 2 ^ nat (bitlen p)" by simp
  also have "\<dots> = (2::rat) powi (bitlen p)"
    using b1 by (simp add: power_int_nonneg_exp)
  finally show "of_int p < (2::rat) powi (bitlen p)" .
qed

lemma ilog2_bounds:
  assumes "0 < y"
  shows "2 powi (ilog2 y) \<le> y" and "y < 2 powi (ilog2 y + 1)"
proof -
  obtain p q where pq: "quotient_of y = (p, q)" by (cases "quotient_of y")
  have q: "0 < q" using quotient_of_denom_pos [OF pq] .
  have y: "y = of_int p / of_int q" using quotient_of_div [OF pq] .
  have p: "0 < p" using assms q y by (simp add: zero_less_divide_iff)
  let ?d = "bitlen p - bitlen q"
  note P = of_int_powi_bounds [OF p] and Q = of_int_powi_bounds [OF q]
  have qq: "(0::rat) < of_int q" using q by simp
  have lower: "2 powi (?d - 1) < y"
  proof -
    have "(2::rat) powi (?d - 1) = 2 powi (bitlen p - 1) / 2 powi (bitlen q)"
      by (simp add: power_int_diff)
    also have "\<dots> \<le> of_int p / 2 powi (bitlen q)"
      using P(1) by (simp add: divide_right_mono)
    also have "\<dots> < of_int p / of_int q"
      using Q(2) p qq by (simp add: divide_strict_left_mono)
    finally show ?thesis using y by simp
  qed
  have upper: "y < 2 powi (?d + 1)"
  proof -
    have "y = of_int p / of_int q" by (rule y)
    also have "\<dots> < 2 powi (bitlen p) / of_int q"
      using P(2) qq by (simp add: divide_strict_right_mono)
    also have "\<dots> \<le> 2 powi (bitlen p) / 2 powi (bitlen q - 1)"
    proof (rule divide_left_mono)
      show "2 powi (bitlen q - 1) \<le> (of_int q :: rat)" by (rule Q(1))
      show "(0::rat) \<le> 2 powi bitlen p" by simp
      show "(0::rat) < of_int q * 2 powi (bitlen q - 1)" using qq by simp
    qed
    also have "\<dots> = 2 powi (?d + 1)"
      by (simp add: power_int_diff power_int_add)
    finally show ?thesis .
  qed
  show "2 powi (ilog2 y) \<le> y"
    using lower by (simp add: ilog2_def pq Let_def less_imp_le)
  show "y < 2 powi (ilog2 y + 1)"
    using upper by (auto simp add: ilog2_def pq Let_def not_le)
qed

lemma round_half_even_nonneg: "0 \<le> z \<Longrightarrow> 0 \<le> round_half_even z"
  by (simp add: round_half_even_def Let_def)

lemma round_half_even_nonpos: "z \<le> 0 \<Longrightarrow> round_half_even z \<le> 0"
proof -
  assume z: "z \<le> 0"
  have f: "\<lfloor>z\<rfloor> \<le> 0" using z by (simp add: floor_le_zero)
  show ?thesis
  proof (cases "\<lfloor>z\<rfloor> = 0")
    case True
    then have "0 \<le> z" using floor_correct [of z] by simp
    then have "z = 0" using z by simp
    then show ?thesis by (simp add: round_half_even_def)
  next
    case False
    then have "\<lfloor>z\<rfloor> + 1 \<le> 0" using f by linarith
    then show ?thesis using f by (simp add: round_half_even_def Let_def)
  qed
qed

lemma round_half_even_near: "\<bar>of_int (round_half_even z) - z\<bar> \<le> 1 / 2"
proof -
  have "of_int \<lfloor>z\<rfloor> \<le> z" "z < of_int \<lfloor>z\<rfloor> + 1" by linarith+
  then show ?thesis by (auto simp add: round_half_even_def Let_def)
qed

lemma fl_sign:
  assumes "fl x = Some y"
  shows "0 \<le> x \<Longrightarrow> 0 \<le> y" and "x \<le> 0 \<Longrightarrow> y \<le> 0"
proof -
  let ?q = "(2::rat) powi (max (ilog2 \<bar>x\<bar>) (- 1022) - 52)"
  have q: "0 < ?q" by simp
  have y: "x \<noteq> 0 \<Longrightarrow> y = of_int (round_half_even (x / ?q)) * ?q"
    using assms by (simp add: fl_def Let_def split: if_splits)
  have y0: "x = 0 \<Longrightarrow> y = 0" using assms by (simp add: fl_def)
  show "0 \<le> x \<Longrightarrow> 0 \<le> y"
  proof (cases "x = 0")
    case True then show ?thesis using y0 by simp
  next
    case False
    assume "0 \<le> x"
    then have "0 \<le> x / ?q" using q by simp
    then have "0 \<le> round_half_even (x / ?q)" by (rule round_half_even_nonneg)
    then show ?thesis using y [OF False] q by simp
  qed
  show "x \<le> 0 \<Longrightarrow> y \<le> 0"
  proof (cases "x = 0")
    case True then show ?thesis using y0 by simp
  next
    case False
    assume "x \<le> 0"
    then have "x / ?q \<le> 0" using q by (simp add: divide_le_0_iff)
    then have "round_half_even (x / ?q) \<le> 0" by (rule round_half_even_nonpos)
    then show ?thesis using y [OF False] q by (simp add: mult_le_0_iff)
  qed
qed

lemma fl_nearest:
  assumes "fl x = Some y" and "x \<noteq> 0"
  shows "\<bar>y - x\<bar> \<le> 2 powi (max (ilog2 \<bar>x\<bar>) (- 1022) - 53)"
proof -
  let ?q = "(2::rat) powi (max (ilog2 \<bar>x\<bar>) (- 1022) - 52)"
  let ?m = "round_half_even (x / ?q)"
  have q: "0 < ?q" by simp
  have y: "y = of_int ?m * ?q"
    using assms by (simp add: fl_def Let_def split: if_splits)
  have "y - x = (of_int ?m - x / ?q) * ?q" using q by (simp add: y algebra_simps)
  then have "\<bar>y - x\<bar> = \<bar>of_int ?m - x / ?q\<bar> * ?q" using q by (simp add: abs_mult)
  also have "\<dots> \<le> (1 / 2) * ?q"
    using round_half_even_near [of "x / ?q"] q by (intro mult_right_mono) simp_all
  also have "\<dots> = 2 powi (max (ilog2 \<bar>x\<bar>) (- 1022) - 53)"
    by (simp add: power_int_diff)
  finally show ?thesis .
qed

text \<open>Integers below \<open>2\<^sup>5\<^sup>3\<close> in magnitude are doubles: rounding leaves them as they are.\<close>

lemma round_half_even_of_int: "round_half_even (of_int m) = m"
  by (simp add: round_half_even_def)

lemma fl_of_int:
  assumes "\<bar>n\<bar> < 2 ^ 53"
  shows "fl (of_int n) = Some (of_int n)"
proof (cases "n = 0")
  case True
  then show ?thesis by (simp add: fl_def)
next
  case False
  let ?y = "\<bar>of_int n :: rat\<bar>"
  let ?e = "ilog2 ?y"
  have y1: "1 \<le> ?y"
  proof -
    have "1 \<le> \<bar>n\<bar>" using False by simp
    then have "(of_int 1 :: rat) \<le> of_int \<bar>n\<bar>" by (simp only: of_int_le_iff)
    then show ?thesis by simp
  qed
  then have ypos: "0 < ?y" by simp
  have yhi: "?y < 2 ^ 53"
  proof -
    have "(of_int \<bar>n\<bar> :: rat) < of_int (2 ^ 53)" using assms by (simp only: of_int_less_iff)
    then show ?thesis by simp
  qed
  note B = ilog2_bounds [OF ypos]
  have e_lo: "0 \<le> ?e"
  proof (rule ccontr)
    assume "\<not> 0 \<le> ?e"
    then have "?e + 1 \<le> 0" by simp
    then have "(2::rat) powi (?e + 1) \<le> 2 powi 0"
      by (intro power_int_increasing) simp_all
    with B(2) y1 show False by simp
  qed
  have e_hi: "?e \<le> 52"
  proof (rule ccontr)
    assume "\<not> ?e \<le> 52"
    then have "53 \<le> ?e" by simp
    then have "(2::rat) powi 53 \<le> 2 powi ?e"
      by (intro power_int_increasing) simp_all
    with B(1) yhi show False by simp
  qed
  define k where "k = nat (52 - ?e)"
  have q: "(2::rat) powi (max ?e (- 1022) - 52) = 1 / 2 ^ k"
  proof -
    have "max ?e (- 1022) - 52 = - int k" using e_lo e_hi by (simp add: k_def)
    then show ?thesis by (simp add: power_int_minus_divide)
  qed
  have d: "of_int n / (1 / 2 ^ k) = (of_int (n * 2 ^ k) :: rat)" by simp
  have r: "of_int (round_half_even (of_int n / (1 / 2 ^ k))) * (1 / 2 ^ k) = (of_int n :: rat)"
    unfolding d round_half_even_of_int by simp
  have big: "\<not> (2::rat) powi 1024 \<le> ?y"
  proof -
    have "(2::rat) ^ 53 \<le> 2 ^ 1024" by (intro power_increasing) simp_all
    then show ?thesis using yhi by simp
  qed
  have nz: "(of_int n :: rat) \<noteq> 0" using False by simp
  show ?thesis
    using nz big by (simp only: fl_def Let_def q r if_False)
qed

lemma fl_numeral [simp]:
  "numeral w < (2 ^ 53 :: int) \<Longrightarrow> fl (numeral w) = Some (numeral w)"
  "numeral w < (2 ^ 53 :: int) \<Longrightarrow> fl (- numeral w) = Some (- numeral w)"
  "fl 1 = Some 1"
  using fl_of_int [of "numeral w"] fl_of_int [of "- numeral w"] fl_of_int [of 1] by simp_all

lemma fl_zero [simp]: "fl 0 = Some 0"
  by (simp add: fl_def)

lemma fmul_Some:
  assumes "fmul a b = Some z"
  obtains x y where "a = Some x" "b = Some y" "fl (x * y) = Some z"
  using assms by (auto simp add: fmul_def split: option.splits)

lemma scaleOf_nonneg: "scaleOf v p = Some k \<Longrightarrow> 0 \<le> k"
proof -
  assume a: "scaleOf v p = Some k"
  then have "fl (of_nat v / of_nat p) = Some k"
    by (simp add: scaleOf_def fdiv_def split: if_splits)
  moreover have "(0::rat) \<le> of_nat v / of_nat p" by simp
  ultimately show ?thesis using fl_sign(1) by blast
qed

lemma fl_product_sign:
  assumes "fl (a * k) = Some z" and "0 \<le> k"
  shows "0 \<le> a \<Longrightarrow> 0 \<le> z" and "a \<le> 0 \<Longrightarrow> z \<le> 0"
proof -
  show "0 \<le> a \<Longrightarrow> 0 \<le> z"
    using fl_sign(1) [OF assms(1)] assms(2) by simp
  show "a \<le> 0 \<Longrightarrow> z \<le> 0"
    using fl_sign(2) [OF assms(1)] assms(2) by (simp add: mult_le_0_iff)
qed

subsection \<open>The draw loop\<close>

lemma drawFrame_draws:
  assumes "c_isRunning c" "element env = Some rect"
    and "0 < videoWidth env" "0 < videoHeight env"
  shows "c_trace (drawFrame env c) =
           c_trace c @
           [(case sourceRect rect (c_width c) (c_height c) (videoWidth env) (videoHeight env)
                   (innerWidth env) (innerHeight env) of
               None \<Rightarrow> DrawImageNonFinite
             | Some (sx, sy, sw, sh) \<Rightarrow> DrawImage sx sy sw sh 0 0 (c_width c) (c_height c)),
            RequestFrame (c_frameCounter c + 1)]"
  using assms by (simp add: drawFrame_def requestFrame_def split: option.splits prod.splits)

lemma sourceRect_Some:
  assumes "sourceRect rect w h vw vh pw ph = Some (sx, sy, sw, sh)"
  shows "\<exists>aL aT scaleX scaleY.
           adLeft rect w = Some aL \<and> adTop rect h = Some aT
           \<and> scaleOf vw pw = Some scaleX \<and> scaleOf vh ph = Some scaleY
           \<and> fl (aL * scaleX) = Some sx \<and> fl (aT * scaleY) = Some sy
           \<and> fl (w * scaleX) = Some sw \<and> fl (h * scaleY) = Some sh
           \<and> (0 \<le> aL \<longrightarrow> 0 \<le> sx) \<and> (aL \<le> 0 \<longrightarrow> sx \<le> 0)
           \<and> (0 \<le> aT \<longrightarrow> 0 \<le> sy) \<and> (aT \<le> 0 \<longrightarrow> sy \<le> 0)
           \<and> (0 \<le> w \<longrightarrow> 0 \<le> sw) \<and> (0 \<le> h \<longrightarrow> 0 \<le> sh)"
proof -
  from assms have
    x: "fmul (adLeft rect w) (scaleOf vw pw) = Some sx" and
    y: "fmul (adTop rect h) (scaleOf vh ph) = Some sy" and
    w: "fmul (Some w) (scaleOf vw pw) = Some sw" and
    h: "fmul (Some h) (scaleOf vh ph) = Some sh"
    by (auto simp add: sourceRect_def Let_def split: option.splits)
  from x obtain aL kx where aL: "adLeft rect w = Some aL" "scaleOf vw pw = Some kx"
    "fl (aL * kx) = Some sx" by (rule fmul_Some)
  from y obtain aT ky where aT: "adTop rect h = Some aT" "scaleOf vh ph = Some ky"
    "fl (aT * ky) = Some sy" by (rule fmul_Some)
  from w aL(2) have sw: "fl (w * kx) = Some sw" by (simp add: fmul_def)
  from h aT(2) have sh: "fl (h * ky) = Some sh" by (simp add: fmul_def)
  have kx: "0 \<le> kx" using aL(2) by (rule scaleOf_nonneg)
  have ky: "0 \<le> ky" using aT(2) by (rule scaleOf_nonneg)
  show ?thesis
    using aL aT sw sh fl_product_sign [OF aL(3) kx] fl_product_sign [OF aT(3) ky]
      fl_product_sign(1) [OF sw kx] fl_product_sign(1) [OF sh ky]
    by blast
qed

text \<open>
  C1 (as amended). On a tick that draws (the loop runs, the element is resolved and the
  frame size of the video is not zero) the compositor makes one \<^verbatim>\<open>drawImage\<close> call and
  requests the next frame; no error is raised. When the values computed are finite, the
  source rectangle passed is \<open>sx = adLeft * scaleX\<close>, \<open>sy = adTop * scaleY\<close>,
  \<open>sw = width * scaleX\<close>, \<open>sh = height * scaleY\<close> as double arithmetic gives them, without
  clamping: \<open>sx\<close> and \<open>sy\<close> are non-negative when the computed \<open>adLeft\<close> and \<open>adTop\<close> are,
  non-positive when those are non-positive, and \<open>sw\<close> and \<open>sh\<close> are non-negative for a
  non-negative target size. Nothing bounds the rectangle by the frame. When a value is
  not finite the call is made with it and the canvas ignores the call.
\<close>

theorem drawFrame_source_rect_unclamped:
  assumes "c_isRunning c" and "element env = Some rect"
    and "0 < videoWidth env" and "0 < videoHeight env"
  shows "c_trace (drawFrame env c) =
           c_trace c @
           [(case sourceRect rect (c_width c) (c_height c) (videoWidth env) (videoHeight env)
                   (innerWidth env) (innerHeight env) of
               None \<Rightarrow> DrawImageNonFinite
             | Some (sx, sy, sw, sh) \<Rightarrow> DrawImage sx sy sw sh 0 0 (c_width c) (c_height c)),
            RequestFrame (c_frameCounter c + 1)]
       \<and> (\<forall>sx sy sw sh.
             sourceRect rect (c_width c) (c_height c) (videoWidth env) (videoHeight env)
               (innerWidth env) (innerHeight env) = Some (sx, sy, sw, sh)
             \<longrightarrow> (\<exists>aL aT scaleX scaleY.
                    adLeft rect (c_width c) = Some aL \<and> adTop rect (c_height c) = Some aT
                    \<and> scaleOf (videoWidth env) (innerWidth env) = Some scaleX
                    \<and> scaleOf (videoHeight env) (innerHeight env) = Some scaleY
                    \<and> fl (aL * scaleX) = Some sx \<and> fl (aT * scaleY) = Some sy
                    \<and> fl (c_width c * scaleX) = Some sw \<and> fl (c_height c * scaleY) = Some sh
                    \<and> (0 \<le> aL \<longrightarrow> 0 \<le> sx) \<and> (aL \<le> 0 \<longrightarrow> sx \<le> 0)
                    \<and> (0 \<le> aT \<longrightarrow> 0 \<le> sy) \<and> (aT \<le> 0 \<longrightarrow> sy \<le> 0)
                    \<and> (0 \<le> c_width c \<longrightarrow> 0 \<le> sw) \<and> (0 \<le> c_height c \<longrightarrow> 0 \<le> sh)))"
  using drawFrame_draws [OF assms] sourceRect_Some by blast

lemma ex_compositor_fields:
  "c_isRunning ex_compositor" "c_width ex_compositor = 300" "c_height ex_compositor = 250"
  "c_trace ex_compositor = []" "c_frameCounter ex_compositor = 0"
  "c_rawTracks ex_compositor = [11, 12]" "c_animationId ex_compositor = None"
  by (simp_all add: ex_compositor_def createCroppedStream_def)

lemma sourceRect_inside:
  "sourceRect \<lparr>rect_left = 100, rect_top = 50, rect_width = 320, rect_height = 270\<rparr>
     300 250 2000 1600 1000 800 = Some (220, 120, 600, 500)"
  by (simp add: sourceRect_def adLeft_def adTop_def scaleOf_def fadd_def fsub_def fmul_def
      fdiv_def)

lemma sourceRect_scrolled:
  "sourceRect \<lparr>rect_left = - 10, rect_top = 0, rect_width = 300, rect_height = 250\<rparr>
     300 250 1000 800 1000 800 = Some (- 10, 0, 300, 250)"
  by (simp add: sourceRect_def adLeft_def adTop_def scaleOf_def fadd_def fsub_def fmul_def
      fdiv_def)

lemma fl_edge_scaleX: "fl (1920 / 1366) = Some (791262013593645 / 562949953421312)"
  by code_simp

lemma fl_edge_scaleY: "fl (1080 / 768) = Some (45 / 32)"
  by code_simp

lemma fl_edge_sx:
  "fl (1066 * (791262013593645 / 562949953421312)) = Some (6589728956959575 / 4398046511104)"
  by code_simp

lemma fl_edge_sw:
  "fl (300 * (791262013593645 / 562949953421312)) = Some (3709040688720211 / 8796093022208)"
  by code_simp

lemma fl_edge_sh: "fl (250 * (45 / 32)) = Some (5625 / 16)"
  by code_simp

lemma edge_scales:
  "scaleOf 1920 1366 = Some (791262013593645 / 562949953421312)"
  "scaleOf 1080 768 = Some (45 / 32)"
proof -
  have "scaleOf 1920 1366 = fl (1920 / 1366)" by (simp add: scaleOf_def fdiv_def)
  then show "scaleOf 1920 1366 = Some (791262013593645 / 562949953421312)"
    by (simp only: fl_edge_scaleX)
  have "scaleOf 1080 768 = fl (1080 / 768)" by (simp add: scaleOf_def fdiv_def)
  then show "scaleOf 1080 768 = Some (45 / 32)" by (simp only: fl_edge_scaleY)
qed

lemma edge_ad:
  "adLeft \<lparr>rect_left = 1066, rect_top = 0, rect_width = 300, rect_height = 250\<rparr> 300 = Some 1066"
  "adTop \<lparr>rect_left = 1066, rect_top = 0, rect_width = 300, rect_height = 250\<rparr> 250 = Some 0"
  by (simp_all add: adLeft_def adTop_def fadd_def fsub_def fdiv_def)

lemma edge_products:
  "fmul (Some 1066) (Some (791262013593645 / 562949953421312))
     = Some (6589728956959575 / 4398046511104)"
  "fmul (Some 0) (Some (45 / 32)) = Some 0"
  "fmul (Some 300) (Some (791262013593645 / 562949953421312))
     = Some (3709040688720211 / 8796093022208)"
  "fmul (Some 250) (Some (45 / 32)) = Some (5625 / 16)"
proof -
  show "fmul (Some 1066) (Some (791262013593645 / 562949953421312))
     = Some (6589728956959575 / 4398046511104)"
    by (simp only: fmul_def option.case fl_edge_sx)
  show "fmul (Some 0) (Some (45 / 32)) = Some 0"
    by (simp add: fmul_def)
  show "fmul (Some 300) (Some (791262013593645 / 562949953421312))
     = Some (3709040688720211 / 8796093022208)"
    by (simp only: fmul_def option.case fl_edge_sw)
  show "fmul (Some 250) (Some (45 / 32)) = Some (5625 / 16)"
    by (simp only: fmul_def option.case fl_edge_sh)
qed

lemma sourceRect_edge:
  "sourceRect \<lparr>rect_left = 1066, rect_top = 0, rect_width = 300, rect_height = 250\<rparr>
     300 250 1920 1080 1366 768
   = Some (6589728956959575 / 4398046511104, 0, 3709040688720211 / 8796093022208, 5625 / 16)"
  by (simp only: sourceRect_def Let_def edge_scales edge_ad edge_products option.case)

lemma ex_draw_inside:
  "c_isRunning c \<Longrightarrow> c_width c = 300 \<Longrightarrow> c_height c = 250 \<Longrightarrow>
   c_trace (drawFrame ex_env_inside c) =
     c_trace c @ [DrawImage 220 120 600 500 0 0 300 250, RequestFrame (c_frameCounter c + 1)]"
  by (simp add: drawFrame_def requestFrame_def ex_env_inside_def sourceRect_inside)

theorem drawFrame_source_rect_unclamped_witness:
  "c_isRunning ex_compositor
   \<and> element ex_env_inside
       = Some \<lparr>rect_left = 100, rect_top = 50, rect_width = 320, rect_height = 270\<rparr>
   \<and> 0 < videoWidth ex_env_inside \<and> 0 < videoHeight ex_env_inside
   \<and> c_trace (drawFrame ex_env_inside ex_compositor)
       = [DrawImage 220 120 600 500 0 0 300 250, RequestFrame 1]
   \<and> sourceRect \<lparr>rect_left = 100, rect_top = 50, rect_width = 320, rect_height = 270\<rparr>
       300 250 2000 1600 1000 800 = Some (220, 120, 600, 500)"
proof -
  have e: "element ex_env_inside
       = Some \<lparr>rect_left = 100, rect_top = 50, rect_width = 320, rect_height = 270\<rparr>"
    "videoWidth ex_env_inside = 2000" "videoHeight ex_env_inside = 1600"
    "innerWidth ex_env_inside = 1000" "innerHeight ex_env_inside = 800"
    by (simp_all add: ex_env_inside_def)
  show ?thesis
    using drawFrame_source_rect_unclamped [of ex_compositor ex_env_inside
        "\<lparr>rect_left = 100, rect_top = 50, rect_width = 320, rect_height = 270\<rparr>"]
    by (simp add: e sourceRect_inside ex_compositor_fields)
qed

text \<open>
  C1 as stated fails: with the container ten pixels out of the viewport on the left the
  call is made with \<open>sx = -10\<close>, outside the frame, and nothing clamps it.
\<close>

theorem drawFrame_source_rect_counterexample:
  "c_isRunning ex_compositor
   \<and> c_trace (drawFrame ex_env ex_compositor)
       = [DrawImage (- 10) 0 300 250 0 0 300 250, RequestFrame 1]
   \<and> \<not> within_frame (- 10, 0, 300, 250) (videoWidth ex_env) (videoHeight ex_env)"
  by (simp add: drawFrame_def requestFrame_def ex_env_def ex_compositor_fields
      sourceRect_scrolled within_frame_def)

text \<open>
  Rounding alone can also put the rectangle outside the frame. With the ad flush with
  the right edge of a 1366 pixel viewport captured at 1920 pixels, the computed ad lies
  within the viewport (\<open>adLeft + width = 1366\<close>), yet the \<open>sx\<close> and \<open>sw\<close> passed add up to
  \<open>1920 + 2\<^sup>-\<^sup>4\<^sup>3\<close>.
\<close>

lemma drawFrame_rounding_exceeds_frame:
  "adLeft \<lparr>rect_left = 1066, rect_top = 0, rect_width = 300, rect_height = 250\<rparr> 300
     = Some 1066
   \<and> c_trace (drawFrame ex_env_edge ex_compositor)
       = [DrawImage (6589728956959575 / 4398046511104) 0 (3709040688720211 / 8796093022208)
            (5625 / 16) 0 0 300 250,
          RequestFrame 1]
   \<and> 6589728956959575 / 4398046511104 + 3709040688720211 / 8796093022208
       = (1920 + 1 / 2 ^ 43 :: rat)
   \<and> \<not> within_frame
         (6589728956959575 / 4398046511104, 0, 3709040688720211 / 8796093022208, 5625 / 16)
         1920 1080"
proof -
  have a: "adLeft \<lparr>rect_left = 1066, rect_top = 0, rect_width = 300, rect_height = 250\<rparr> 300
     = Some 1066" by (rule edge_ad(1))
  have t: "c_trace (drawFrame ex_env_edge ex_compositor)
       = [DrawImage (6589728956959575 / 4398046511104) 0 (3709040688720211 / 8796093022208)
            (5625 / 16) 0 0 300 250,
          RequestFrame 1]"
    by (simp add: drawFrame_def requestFrame_def ex_env_edge_def ex_compositor_fields
        sourceRect_edge)
  have s: "6589728956959575 / 4398046511104 + 3709040688720211 / 8796093022208
       = (1920 + 1 / 2 ^ 43 :: rat)" by simp
  show ?thesis using a t s by (simp add: within_frame_def)
qed

text \<open>
  C6. On a tick of the running draw loop where the crop target resolves to \<^verbatim>\<open>null\<close>,
  the compositor draws nothing, requests the next frame and stays running; the tick has
  no other effect and raises no error. (The witness also shows the next tick drawing
  once the element is back.)
\<close>

theorem drawFrame_unresolved_element_retries:
  assumes "c_isRunning c" and "element env = None"
  shows "drawFrame env c =
           c\<lparr>c_animationId := Some (c_frameCounter c + 1),
             c_frameCounter := c_frameCounter c + 1,
             c_trace := c_trace c @ [RequestFrame (c_frameCounter c + 1)]\<rparr>
       \<and> c_isRunning (drawFrame env c)"
  using assms by (simp add: drawFrame_def requestFrame_def)

theorem drawFrame_unresolved_element_retries_witness:
  "c_isRunning ex_compositor \<and> element ex_env_reloading = None
   \<and> c_trace (drawFrame ex_env_reloading ex_compositor) = [RequestFrame 1]
   \<and> c_trace (drawFrame ex_env_inside (drawFrame ex_env_reloading ex_compositor))
       = [RequestFrame 1, DrawImage 220 120 600 500 0 0 300 250, RequestFrame 2]"
proof -
  have n: "element ex_env_reloading = None"
    by (simp add: ex_env_reloading_def)
  have "drawFrame ex_env_reloading ex_compositor =
          ex_compositor\<lparr>c_animationId := Some 1, c_frameCounter := 1,
                        c_trace := [RequestFrame 1]\<rparr>"
    using drawFrame_unresolved_element_retries [OF ex_compositor_fields(1) n]
    by (simp add: ex_compositor_fields)
  then show ?thesis
    using n by (simp add: ex_compositor_fields ex_draw_inside)
qed

lemma stopTracks_fields:
  "c_trace (stopTracks ts c) = c_trace c @ map TrackStop ts"
  "c_stopped (stopTracks ts c) = c_stopped c @ ts"
  "c_isRunning (stopTracks ts c) = c_isRunning c"
  "c_srcObject (stopTracks ts c) = c_srcObject c"
  "c_videoPaused (stopTracks ts c) = c_videoPaused c"
  "c_animationId (stopTracks ts c) = c_animationId c"
  by (induction ts arbitrary: c) simp_all

text \<open>
  C7. The combined cleanup cancels the pending frame, pauses the off-screen video and
  detaches it from its source, and only then stops the tracks of the raw stream, each
  once and in order; afterwards the loop is not running, so that a frame callback still
  delivered does nothing.
\<close>

theorem combinedCleanup_order:
  "c_trace (combinedCleanup c) =
     c_trace c @ [CancelFrame (c_animationId c), VideoPause, VideoSrcObjectNull]
     @ map TrackStop (c_rawTracks c)
   \<and> \<not> c_isRunning (combinedCleanup c) \<and> \<not> c_srcObject (combinedCleanup c)
   \<and> c_stopped (combinedCleanup c) = c_stopped c @ c_rawTracks c
   \<and> drawFrame env (combinedCleanup c) = combinedCleanup c"
  by (simp add: combinedCleanup_def stopTracks_fields cleanup_def drawFrame_def)

lemma combinedCleanup_example:
  "c_trace (combinedCleanup (drawFrame ex_env_inside ex_compositor)) =
     [DrawImage 220 120 600 500 0 0 300 250, RequestFrame 1,
      CancelFrame (Some 1), VideoPause, VideoSrcObjectNull, TrackStop 11, TrackStop 12]"
proof -
  have d: "drawFrame ex_env_inside ex_compositor =
             ex_compositor\<lparr>c_trace := [DrawImage 220 120 600 500 0 0 300 250, RequestFrame 1],
                           c_animationId := Some 1, c_frameCounter := 1\<rparr>"
    by (simp add: drawFrame_def requestFrame_def ex_env_inside_def sourceRect_inside
        ex_compositor_fields)
  show ?thesis
    unfolding d by (simp add: combinedCleanup_def cleanup_def stopTracks_fields
        ex_compositor_fields)
qed

section \<open>Properties of the recorder\<close>













lemma ex_created: "(case createRecorder True of Inr r \<Rightarrow> r) =
    \<lparr>chunks = [], rec_startTime = 0, pausedDuration = 0, pauseStart = 0,
      rec_isRecording = False, rec_isPaused = False, rec_duration = 0,
      mediaRecorder = MInactive, mr_onstop = None, mr_onerror = None,
      stopCalls = 0, promises = (\<lambda>p. None), streamLive = True\<rparr>"
  by (simp add: createRecorder_def)


lemma ex_recording_fields:
  "mediaRecorder ex_recording = MRecording" "chunks ex_recording = [[1, 2, 3]]"
  "mediaRecorder ex_recording_empty = MRecording" "chunks ex_recording_empty = []"
  "stopCalls ex_recording = 0" "stopCalls ex_recording_empty = 0"
  by (simp_all add: ex_recording_def ex_recording_empty_def ex_created rec_start_def
      ondataavailable_def Let_def)



text \<open>
  Two calls of \<^verbatim>\<open>stop()\<close> before the \<^verbatim>\<open>stop\<close> event: the handler of the second call
  has replaced that of the first, so the event settles the second promise and the first
  stays unsettled.
\<close>

lemma stop_twice_example:
  "snd (rec_stop ex_recording) = 1 \<and> snd (rec_stop (fst (rec_stop ex_recording))) = 2
   \<and> promises (stop_event 900 (fst (rec_stop (fst (rec_stop ex_recording))))) 1 = None
   \<and> promises (stop_event 900 (fst (rec_stop (fst (rec_stop ex_recording))))) 2
       = Some (Resolved [1, 2, 3])"
proof -
  have p: "promises ex_recording = (\<lambda>p. None)"
    by (simp add: ex_recording_def ex_created rec_start_def ondataavailable_def Let_def)
  show ?thesis
    by (simp add: rec_stop_def Let_def stop_event_def settle_def p ex_recording_fields)
qed

section \<open>Properties of the recording hook and of the orchestrator\<close>

lemma prepareRecording_success:
  assumes "snd (prepareRecording cfg env s) = None"
  shows "fst (prepareRecording cfg env s) =
           s\<lparr>streamRef := True, cropCleanupRef := (cfg \<noteq> None),
             recorderRef := Some \<lparr>chunks = [], rec_startTime = 0, pausedDuration = 0,
                pauseStart = 0, rec_isRecording = False, rec_isPaused = False,
                rec_duration = 0, mediaRecorder = MInactive, mr_onstop = None,
                mr_onerror = None, stopCalls = 0, promises = (\<lambda>p. None),
                streamLive = True\<rparr>,
             isPreparedRef := True, isPrepared := True\<rparr>"
    and "isSupported s" and "granted env" and "typeSupported env"
  using assms
  by (auto simp add: prepareRecording_def createRecorder_def Let_def split: if_splits)

lemma prepareRecording_failure:
  assumes "snd (prepareRecording cfg env s) \<noteq> None"
  shows "st_isRecording (fst (prepareRecording cfg env s)) = st_isRecording s"
    and "isPreparedRef (fst (prepareRecording cfg env s)) = isPreparedRef s"
    and "isPrepared (fst (prepareRecording cfg env s)) = isPrepared s"
    and "recorderRef (fst (prepareRecording cfg env s)) = recorderRef s"
  using assms
  by (auto simp add: prepareRecording_def createRecorder_def Let_def split: if_splits)

text \<open>
  C5. \<^verbatim>\<open>beginPreparedRecording\<close> with no recorder or with no prepared session only logs
  ``No prepared recording to start'': nothing is thrown, the recorder (and so its
  encoder) and the flags \<^verbatim>\<open>isRecording\<close> and \<^verbatim>\<open>isPrepared\<close> are as before. On the
  session that a successful \<^verbatim>\<open>prepareRecording\<close> leaves, which is prepared and not
  recording more than before, it starts the encoder without an exception and the session
  goes from prepared to recording.
\<close>

theorem beginPreparedRecording_noop_or_start:
  "(recorderRef s = None \<or> \<not> isPreparedRef s \<longrightarrow>
      beginPreparedRecording now s =
        (s\<lparr>console := console s @ [''No prepared recording to start'']\<rparr>, None))
   \<and> (snd (prepareRecording cfg env s0) = None \<longrightarrow>
        isPrepared (fst (prepareRecording cfg env s0))
        \<and> isPreparedRef (fst (prepareRecording cfg env s0))
        \<and> st_isRecording (fst (prepareRecording cfg env s0)) = st_isRecording s0
        \<and> snd (beginPreparedRecording now (fst (prepareRecording cfg env s0))) = None
        \<and> \<not> isPrepared (fst (beginPreparedRecording now (fst (prepareRecording cfg env s0))))
        \<and> \<not> isPreparedRef (fst (beginPreparedRecording now (fst (prepareRecording cfg env s0))))
        \<and> st_isRecording (fst (beginPreparedRecording now (fst (prepareRecording cfg env s0))))
        \<and> (\<exists>r. recorderRef (fst (beginPreparedRecording now (fst (prepareRecording cfg env s0))))
                  = Some r
                \<and> mediaRecorder r = MRecording \<and> rec_isRecording r \<and> rec_startTime r = now
                \<and> chunks r = []))"
proof -
  have a: "recorderRef s = None \<or> \<not> isPreparedRef s \<longrightarrow>
      beginPreparedRecording now s =
        (s\<lparr>console := console s @ [''No prepared recording to start'']\<rparr>, None)"
    by (auto simp add: beginPreparedRecording_def split: option.splits)
  have b: "snd (prepareRecording cfg env s0) = None \<longrightarrow>
        isPrepared (fst (prepareRecording cfg env s0))
        \<and> isPreparedRef (fst (prepareRecording cfg env s0))
        \<and> st_isRecording (fst (prepareRecording cfg env s0)) = st_isRecording s0
        \<and> snd (beginPreparedRecording now (fst (prepareRecording cfg env s0))) = None
        \<and> \<not> isPrepared (fst (beginPreparedRecording now (fst (prepareRecording cfg env s0))))
        \<and> \<not> isPreparedRef (fst (beginPreparedRecording now (fst (prepareRecording cfg env s0))))
        \<and> st_isRecording (fst (beginPreparedRecording now (fst (prepareRecording cfg env s0))))
        \<and> (\<exists>r. recorderRef (fst (beginPreparedRecording now (fst (prepareRecording cfg env s0))))
                  = Some r
                \<and> mediaRecorder r = MRecording \<and> rec_isRecording r \<and> rec_startTime r = now
                \<and> chunks r = [])"
  proof
    assume ok: "snd (prepareRecording cfg env s0) = None"
    show "isPrepared (fst (prepareRecording cfg env s0))
        \<and> isPreparedRef (fst (prepareRecording cfg env s0))
        \<and> st_isRecording (fst (prepareRecording cfg env s0)) = st_isRecording s0
        \<and> snd (beginPreparedRecording now (fst (prepareRecording cfg env s0))) = None
        \<and> \<not> isPrepared (fst (beginPreparedRecording now (fst (prepareRecording cfg env s0))))
        \<and> \<not> isPreparedRef (fst (beginPreparedRecording now (fst (prepareRecording cfg env s0))))
        \<and> st_isRecording (fst (beginPreparedRecording now (fst (prepareRecording cfg env s0))))
        \<and> (\<exists>r. recorderRef (fst (beginPreparedRecording now (fst (prepareRecording cfg env s0))))
                  = Some r
                \<and> mediaRecorder r = MRecording \<and> rec_isRecording r \<and> rec_startTime r = now
                \<and> chunks r = [])"
      unfolding prepareRecording_success(1) [OF ok]
      by (simp add: beginPreparedRecording_def rec_start_def Let_def)
  qed
  show ?thesis using a b by blast
qed


theorem beginPreparedRecording_noop_or_start_witness:
  "recorderRef (new_useRecorder True) = None
   \<and> beginPreparedRecording 7 (new_useRecorder True)
       = ((new_useRecorder True)\<lparr>console := [''No prepared recording to start'']\<rparr>, None)
   \<and> snd (prepareRecording None ex_granting (new_useRecorder True)) = None
   \<and> isPrepared (fst (prepareRecording None ex_granting (new_useRecorder True)))
   \<and> st_isRecording
        (fst (beginPreparedRecording 7
               (fst (prepareRecording None ex_granting (new_useRecorder True)))))
   \<and> \<not> isPrepared
        (fst (beginPreparedRecording 7
               (fst (prepareRecording None ex_granting (new_useRecorder True)))))"
proof -
  have n: "recorderRef (new_useRecorder True) = None" "console (new_useRecorder True) = []"
    by (simp_all add: new_useRecorder_def)
  have ok: "snd (prepareRecording None ex_granting (new_useRecorder True)) = None"
    by (simp add: prepareRecording_def new_useRecorder_def ex_granting_def createRecorder_def)
  show ?thesis
    using beginPreparedRecording_noop_or_start
            [of "new_useRecorder True" 7 None ex_granting "new_useRecorder True"] n ok
    by simp
qed

lemma countdownLoop_fields:
  "recorder (countdownLoop n p) = recorder p"
  "previewKey (countdownLoop n p) = previewKey p"
  "isAdReady (countdownLoop n p) = isAdReady p"
  "isStartingCapture (countdownLoop n p) = isStartingCapture p"
  "loadedTag (countdownLoop n p) = loadedTag p"
  by (induction n arbitrary: p) simp_all

lemma countdownLoop_3_steps:
  "steps (countdownLoop 3 p) =
     steps p @ [SetCountdown (Some 3), Wait 1000, SetCountdown (Some 2), Wait 1000,
                SetCountdown (Some 1), Wait 1000]"
  by (simp add: numeral_3_eq_3)

lemma cropConfigOf_cong:
  "recordingMode q = recordingMode p \<Longrightarrow> dimensions q = dimensions p
   \<Longrightarrow> cropConfigOf q = cropConfigOf p"
  by (simp add: cropConfigOf_def)

lemma begin_after_prepare:
  assumes "snd (prepareRecording cfg env s0) = None"
  shows "snd (beginPreparedRecording now (fst (prepareRecording cfg env s0))) = None"
    and "st_isRecording (fst (beginPreparedRecording now (fst (prepareRecording cfg env s0))))"
  unfolding prepareRecording_success(1) [OF assms]
  by (simp_all add: beginPreparedRecording_def rec_start_def Let_def)

text \<open>
  C8. With a tag loaded, the orchestrator first prepares the recorder. When that
  succeeds it shows the countdown 3, 2, 1, a second each, then clears it, reloads the ad
  (ad not ready, preview key increased), then begins the prepared recording, which is
  then recording. When the preparation fails it logs, clears the countdown and ends:
  no countdown tick, no wait, no reload and no begin take place.
\<close>

theorem handleReloadAndRecord_order:
  assumes "loadedTag p = Some tag" and "tag \<noteq> []"
  shows "(snd (prepareRecording (cropConfigOf p) env (recorder p)) = None \<longrightarrow>
            steps (handleReloadAndRecord env now p) =
              steps p @
              [SetIsStartingCapture True, PrepareRecording (cropConfigOf p),
               SetCountdown (Some 3), Wait 1000, SetCountdown (Some 2), Wait 1000,
               SetCountdown (Some 1), Wait 1000, SetCountdown None,
               SetIsAdReady False, SetPreviewKey (previewKey p + 1),
               BeginPreparedRecording, SetIsStartingCapture False]
            \<and> previewKey (handleReloadAndRecord env now p) = previewKey p + 1
            \<and> st_isRecording (recorder (handleReloadAndRecord env now p)))
       \<and> (snd (prepareRecording (cropConfigOf p) env (recorder p)) \<noteq> None \<longrightarrow>
            steps (handleReloadAndRecord env now p) =
              steps p @
              [SetIsStartingCapture True, PrepareRecording (cropConfigOf p),
               ConsoleError ''Failed to start reload-and-record:'', SetCountdown None,
               SetIsStartingCapture False]
            \<and> previewKey (handleReloadAndRecord env now p) = previewKey p
            \<and> isAdReady (handleReloadAndRecord env now p) = isAdReady p
            \<and> st_isRecording (recorder (handleReloadAndRecord env now p))
                = st_isRecording (recorder p))"
proof -
  let ?p1 = "p\<lparr>isStartingCapture := True, steps := steps p @ [SetIsStartingCapture True]\<rparr>"
  let ?pr = "prepareRecording (cropConfigOf p) env (recorder p)"
  have cc: "cropConfigOf ?p1 = cropConfigOf p" by (simp add: cropConfigOf_def)
  have tag: "\<not> (loadedTag p = None \<or> loadedTag p = Some [])" using assms by simp
  have ok: "snd ?pr = None \<longrightarrow>
            steps (handleReloadAndRecord env now p) =
              steps p @
              [SetIsStartingCapture True, PrepareRecording (cropConfigOf p),
               SetCountdown (Some 3), Wait 1000, SetCountdown (Some 2), Wait 1000,
               SetCountdown (Some 1), Wait 1000, SetCountdown None,
               SetIsAdReady False, SetPreviewKey (previewKey p + 1),
               BeginPreparedRecording, SetIsStartingCapture False]
            \<and> previewKey (handleReloadAndRecord env now p) = previewKey p + 1
            \<and> st_isRecording (recorder (handleReloadAndRecord env now p))"
  proof
    assume s: "snd ?pr = None"
    obtain h where h: "?pr = (h, None)" using s by (cases ?pr) auto
    have hf: "h = fst ?pr" using h by simp
    obtain h' where h': "beginPreparedRecording now h = (h', None)"
      using begin_after_prepare(1) [OF s, of now] hf
      by (cases "beginPreparedRecording now h") auto
    have rec: "st_isRecording h'"
      using begin_after_prepare(2) [OF s, of now] hf h' by simp
    show "steps (handleReloadAndRecord env now p) =
              steps p @
              [SetIsStartingCapture True, PrepareRecording (cropConfigOf p),
               SetCountdown (Some 3), Wait 1000, SetCountdown (Some 2), Wait 1000,
               SetCountdown (Some 1), Wait 1000, SetCountdown None,
               SetIsAdReady False, SetPreviewKey (previewKey p + 1),
               BeginPreparedRecording, SetIsStartingCapture False]
            \<and> previewKey (handleReloadAndRecord env now p) = previewKey p + 1
            \<and> st_isRecording (recorder (handleReloadAndRecord env now p))"
      using tag h h' rec
      by (simp add: handleReloadAndRecord_def Let_def cc countdownLoop_fields
          countdownLoop_3_steps finally_block_def)
  qed
  have fail: "snd ?pr \<noteq> None \<longrightarrow>
            steps (handleReloadAndRecord env now p) =
              steps p @
              [SetIsStartingCapture True, PrepareRecording (cropConfigOf p),
               ConsoleError ''Failed to start reload-and-record:'', SetCountdown None,
               SetIsStartingCapture False]
            \<and> previewKey (handleReloadAndRecord env now p) = previewKey p
            \<and> isAdReady (handleReloadAndRecord env now p) = isAdReady p
            \<and> st_isRecording (recorder (handleReloadAndRecord env now p))
                = st_isRecording (recorder p)"
  proof
    assume s: "snd ?pr \<noteq> None"
    then obtain h e where h: "?pr = (h, Some e)" by (cases ?pr) auto
    have "st_isRecording h = st_isRecording (recorder p)"
      using prepareRecording_failure(1) [OF s] h by simp
    then show "steps (handleReloadAndRecord env now p) =
              steps p @
              [SetIsStartingCapture True, PrepareRecording (cropConfigOf p),
               ConsoleError ''Failed to start reload-and-record:'', SetCountdown None,
               SetIsStartingCapture False]
            \<and> previewKey (handleReloadAndRecord env now p) = previewKey p
            \<and> isAdReady (handleReloadAndRecord env now p) = isAdReady p
            \<and> st_isRecording (recorder (handleReloadAndRecord env now p))
                = st_isRecording (recorder p)"
      using tag h
      by (simp add: handleReloadAndRecord_def Let_def cc finally_block_def catch_block_def)
  qed
  show ?thesis using ok fail by blast
qed

lemma ex_page_fields:
  "loadedTag ex_page = Some ''<script></script>''" "steps ex_page = []" "previewKey ex_page = 4"
  "recorder ex_page = new_useRecorder True"
  "cropConfigOf ex_page = Some \<lparr>cc_width = 300, cc_height = 250\<rparr>"
  by (simp_all add: ex_page_def cropConfigOf_def)

theorem handleReloadAndRecord_order_witness:
  "loadedTag ex_page = Some ''<script></script>''
   \<and> snd (prepareRecording (cropConfigOf ex_page) ex_granting (recorder ex_page)) = None
   \<and> steps (handleReloadAndRecord ex_granting 0 ex_page) =
        [SetIsStartingCapture True, PrepareRecording (Some \<lparr>cc_width = 300, cc_height = 250\<rparr>),
         SetCountdown (Some 3), Wait 1000, SetCountdown (Some 2), Wait 1000,
         SetCountdown (Some 1), Wait 1000, SetCountdown None,
         SetIsAdReady False, SetPreviewKey 5,
         BeginPreparedRecording, SetIsStartingCapture False]
   \<and> snd (prepareRecording (cropConfigOf ex_page) ex_denying (recorder ex_page))
       = Some CaptureRejected
   \<and> steps (handleReloadAndRecord ex_denying 0 ex_page) =
        [SetIsStartingCapture True, PrepareRecording (Some \<lparr>cc_width = 300, cc_height = 250\<rparr>),
         ConsoleError ''Failed to start reload-and-record:'', SetCountdown None,
         SetIsStartingCapture False]
   \<and> previewKey (handleReloadAndRecord ex_denying 0 ex_page) = 4"
proof -
  have g: "snd (prepareRecording (cropConfigOf ex_page) ex_granting (recorder ex_page)) = None"
    by (simp add: ex_page_fields prepareRecording_def new_useRecorder_def ex_granting_def
        createRecorder_def)
  have d: "snd (prepareRecording (cropConfigOf ex_page) ex_denying (recorder ex_page))
             = Some CaptureRejected"
    by (simp add: ex_page_fields prepareRecording_def new_useRecorder_def ex_denying_def)
  have t: "''<script></script>'' \<noteq> []" by simp
  show ?thesis
    using handleReloadAndRecord_order [OF ex_page_fields(1) t, of ex_granting 0]
      handleReloadAndRecord_order [OF ex_page_fields(1) t, of ex_denying 0] g d
    by (simp add: ex_page_fields)
qed

end
